theory Spec2Isabelle
  imports Complex_Main "HOL-Library.AList"
begin

section \<open>JavaScript values, strings and records\<close>

text \<open>
  The values that travel through the pipeline are JavaScript primitives. Numbers are kept
  abstract (type \<open>'n\<close>): Number-to-text conversion is the runtime's floating-point
  formatting and enters every function below as the parameter \<open>num\<close>. The last two
  constructors are what a record can only inherit: a built-in function, by its name, and
  \<open>Object.prototype\<close> itself.
\<close>

datatype 'n jsval =
  JNull | JUndefined | JString string | JNumber 'n | JBoolean bool
  | JFunction string | JObjectPrototype

text \<open>
  A log entry is a plain data object. It is kept as the list of its own properties in the
  order \<open>Object.keys\<close> reports them: array indices first, ascending, then the other names
  in the order of their creation.
\<close>

type_synonym 'n entry = "(string \<times> 'n jsval) list"

definition Object_keys :: "'n entry \<Rightarrow> string list" where
  "Object_keys obj = map fst obj"

text \<open>
  A plain object inherits from \<open>Object.prototype\<close>, which has twelve members with text
  names: \<open>constructor\<close> (the function \<open>Object\<close>), the accessor \<open>__proto__\<close> (its getter gives
  the prototype of the object read, here \<open>Object.prototype\<close>) and ten methods.
  \<open>Object_prototype\<close> is reading a name on it.
\<close>

definition Object_prototype_methods :: "string list" where
  "Object_prototype_methods =
     [''__defineGetter__'', ''__defineSetter__'', ''hasOwnProperty'', ''__lookupGetter__'',
      ''__lookupSetter__'', ''isPrototypeOf'', ''propertyIsEnumerable'', ''toString'',
      ''valueOf'', ''toLocaleString'']"

definition Object_prototype_names :: "string list" where
  "Object_prototype_names = ''constructor'' # ''__proto__'' # Object_prototype_methods"

definition Object_prototype :: "string \<Rightarrow> 'n jsval" where
  "Object_prototype k =
     (if k = ''constructor'' then JFunction ''Object''
      else if k = ''__proto__'' then JObjectPrototype
      else if k \<in> set Object_prototype_methods then JFunction k
      else JUndefined)"

text \<open>
  \<open>obj[k]\<close>: the object's own property when it has one of that name, otherwise what the
  prototype gives, which is \<open>undefined\<close> for a name the prototype does not have either.
  The records that reach the exporter have come through the window's message channel,
  which rebuilds each of them as a plain object, so their prototype is \<open>Object.prototype\<close>.
\<close>

definition js_get :: "'n entry \<Rightarrow> string \<Rightarrow> 'n jsval" where
  "js_get obj k = (case map_of obj k of None \<Rightarrow> Object_prototype k | Some v \<Rightarrow> v)"

text \<open>A thrown \<open>Error\<close> object; only its message is ever inspected.\<close>

datatype exn = Error (message_of: string)

subsection \<open>String primitives\<close>

definition dquote :: char where
  "dquote = CHR 0x22"

text \<open>\<open>value.includes(',')\<close>\<close>

definition includes_comma :: "string \<Rightarrow> bool" where
  "includes_comma s = (CHR '','' \<in> set s)"

text \<open>\<open>value.replace(/"/g, '""')\<close>: every double quote becomes two.\<close>

definition replace_quotes :: "string \<Rightarrow> string" where
  "replace_quotes s = concat (map (\<lambda>c. if c = dquote then [dquote, dquote] else [c]) s)"

text \<open>
  \<open>h.toUpperCase()\<close> on field names, which are ASCII identifiers: the letters \<open>a\<close> to \<open>z\<close>
  move to \<open>A\<close> to \<open>Z\<close>, every other character stays.
\<close>

definition upper_char :: "char \<Rightarrow> char" where
  "upper_char c =
     (let n = (of_char c :: nat) in if 97 \<le> n \<and> n \<le> 122 then char_of (n - 32) else c)"

definition toUpperCase :: "string \<Rightarrow> string" where
  "toUpperCase s = map upper_char s"

text \<open>\<open>Array.prototype.join\<close> on an array of strings.\<close>

fun js_join :: "string \<Rightarrow> string list \<Rightarrow> string" where
  "js_join sep [] = []"
| "js_join sep [x] = x"
| "js_join sep (x # y # ys) = x @ sep @ js_join sep (y # ys)"

text \<open>
  \<open>Array.prototype.join\<close> on an array of values: \<open>null\<close> and \<open>undefined\<close> elements give the
  empty text, every other element its \<open>ToString\<close>. A built-in function is written as the
  engine writes it, \<open>function name() { [native code] }\<close>.
\<close>

definition element_text :: "('n \<Rightarrow> string) \<Rightarrow> 'n jsval \<Rightarrow> string" where
  "element_text num v =
     (case v of
        JNull \<Rightarrow> []
      | JUndefined \<Rightarrow> []
      | JString s \<Rightarrow> s
      | JNumber n \<Rightarrow> num n
      | JBoolean b \<Rightarrow> (if b then ''true'' else ''false'')
      | JFunction f \<Rightarrow> ''function '' @ f @ ''() { [native code] }''
      | JObjectPrototype \<Rightarrow> ''[object Object]'')"

definition Array_join :: "('n \<Rightarrow> string) \<Rightarrow> string \<Rightarrow> 'n jsval list \<Rightarrow> string" where
  "Array_join num sep vs = js_join sep (map (element_text num) vs)"

section \<open>The CSV exporter (handler \<open>export-to-csv\<close>)\<close>

text \<open>The header callback: three fixed labels, every other name in upper case.\<close>

definition relabel :: "string \<Rightarrow> string" where
  "relabel h =
     (if h = ''sensor_name'' then ''Sensor Name''
      else if h = ''temperature'' then ''Temperature (C)''
      else if h = ''timestamp'' then ''Time Stamp''
      else toUpperCase h)"

definition csvHeaders :: "string list \<Rightarrow> string" where
  "csvHeaders headers = js_join '','' (map relabel headers)"

text \<open>
  The cell callback, after \<open>let value = row[header]\<close>: \<open>null\<close> and \<open>undefined\<close> become the
  empty string, a string with a comma is quoted, anything else is returned as it is.
\<close>

definition csv_cell :: "'n jsval \<Rightarrow> 'n jsval" where
  "csv_cell v =
     (case v of
        JNull \<Rightarrow> JString []
      | JUndefined \<Rightarrow> JString []
      | JString s \<Rightarrow>
          (if includes_comma s then JString (dquote # replace_quotes s @ [dquote]) else JString s)
      | JNumber n \<Rightarrow> JNumber n
      | JBoolean b \<Rightarrow> JBoolean b
      | JFunction f \<Rightarrow> JFunction f
      | JObjectPrototype \<Rightarrow> JObjectPrototype)"

definition csvRow :: "('n \<Rightarrow> string) \<Rightarrow> string list \<Rightarrow> 'n entry \<Rightarrow> string" where
  "csvRow num headers row =
     Array_join num '','' (map (\<lambda>header. csv_cell (js_get row header)) headers)"

definition csvRows :: "('n \<Rightarrow> string) \<Rightarrow> string list \<Rightarrow> 'n entry list \<Rightarrow> string list" where
  "csvRows num headers data = map (csvRow num headers) data"

definition no_data_message :: string where
  "no_data_message = ''No data provided for export.''"

text \<open>
  The document part of the handler, up to \<open>csvContent\<close>. An absent argument (\<open>!data\<close>) is
  \<open>None\<close>. The result is either the message of the failure reply or the document.
\<close>

definition exportCsv :: "('n \<Rightarrow> string) \<Rightarrow> 'n entry list option \<Rightarrow> string + string" where
  "exportCsv num data =
     (case data of
        None \<Rightarrow> Inl no_data_message
      | Some [] \<Rightarrow> Inl no_data_message
      | Some (first # rest) \<Rightarrow>
          (let headers = Object_keys first
           in Inr (js_join ''\<newline>'' (csvHeaders headers # csvRows num headers (first # rest)))))"

text \<open>
  Every handler answers with a reply object \<open>{ success, message?, filePath?, fileName?,
  data? }\<close>; a field the handler leaves out is \<open>None\<close>.
\<close>

record 'n reply =
  success :: bool
  message :: "string option"
  filePath :: "string option"
  fileName :: "string option"
  data :: "'n entry list option"

definition failure :: "string \<Rightarrow> 'n reply" where
  "failure msg =
     \<lparr>success = False, message = Some msg, filePath = None, fileName = None, data = None\<rparr>"

text \<open>
  The rest of the handler. The save dialog's answer (\<open>canceled\<close> and the chosen path, \<open>None\<close>
  when it is undefined) and the file write are the operator's and the file system's, so
  they are inputs. The second component of the result is the file written, if any.
\<close>

definition export_to_csv ::
  "('n \<Rightarrow> string) \<Rightarrow> bool \<Rightarrow> string option \<Rightarrow> (string \<Rightarrow> string \<Rightarrow> exn option) \<Rightarrow>
   'n entry list option \<Rightarrow> 'n reply \<times> (string \<times> string) option" where
  "export_to_csv num canceled chosen writeFileSync records =
     (case exportCsv num records of
        Inl msg \<Rightarrow> (failure msg, None)
      | Inr csvContent \<Rightarrow>
          (case chosen of
             None \<Rightarrow> (failure ''Canceled'', None)
           | Some p \<Rightarrow>
               if canceled \<or> p = [] then (failure ''Canceled'', None)
               else (case writeFileSync p csvContent of
                       None \<Rightarrow>
                         (\<lparr>success = True,
                           message = Some (''Data successfully exported to CSV at: '' @ p),
                           filePath = None, fileName = None, data = None\<rparr>,
                          Some (p, csvContent))
                     | Some e \<Rightarrow>
                         (failure (''Failed to save CSV file: '' @ message_of e), None))))"

section \<open>The engine loader (\<open>initializeDbModule\<close>)\<close>

text \<open>
  The process keeps one global, \<open>dbModule\<close>, unset until the library is initialized. The
  counter beside it is a ghost: it counts the invocations of \<open>initSqlJs\<close>, and only
  \<open>call_initSqlJs\<close> below moves it.
\<close>

record 'm process =
  dbModule :: "'m option"
  initSqlJs_calls :: nat

text \<open>
  What the loader reads from its surroundings. \<open>initSqlJs\<close> gives, for a configuration
  (the optional \<open>wasmBinary\<close>), how the promise it returns settles: rejected with an error
  or fulfilled with the module.
\<close>

record 'm loader_env =
  NODE_ENV :: "string option"
  dirname :: string
  resourcesPath :: string
  path_join :: "string list \<Rightarrow> string"
  existsSync :: "string \<Rightarrow> bool"
  wasm_readFileSync :: "string \<Rightarrow> exn + string"
  initSqlJs :: "string option \<Rightarrow> exn + 'm"

definition WASM_PATH :: "'m loader_env \<Rightarrow> string" where
  "WASM_PATH env =
     (if NODE_ENV env = Some ''development''
      then path_join env [dirname env, ''node_modules'', ''sql.js'', ''dist'', ''sql-wasm.wasm'']
      else path_join env [resourcesPath env, ''sql-wasm.wasm''])"

text \<open>
  An \<open>async\<close> function runs until its first \<open>await\<close> and continues in a later turn of the
  event loop, when the awaited promise has settled. \<open>initializeDbModule\<close> has one \<open>await\<close>
  on each path, so a call is two steps: \<open>init_begin\<close> runs up to the \<open>await\<close> (or to the end
  when the call finishes before it), \<open>init_resume\<close> runs the rest.
\<close>

datatype 'm pending = Finished "exn + unit" | Awaiting "exn + 'm"

text \<open>
  Invoking \<open>initSqlJs\<close>: the call is counted and the caller is left waiting for the promise.
\<close>

definition call_initSqlJs ::
  "'m loader_env \<Rightarrow> string option \<Rightarrow> 'm process \<Rightarrow> 'm pending \<times> 'm process" where
  "call_initSqlJs env config st =
     (Awaiting (initSqlJs env config), st\<lparr>initSqlJs_calls := Suc (initSqlJs_calls st)\<rparr>)"

definition init_begin :: "'m loader_env \<Rightarrow> 'm process \<Rightarrow> 'm pending \<times> 'm process" where
  "init_begin env st =
     (if dbModule st \<noteq> None then (Finished (Inr ()), st)
      else if existsSync env (WASM_PATH env) then
        (case wasm_readFileSync env (WASM_PATH env) of
           Inl e \<Rightarrow> (Finished (Inl e), st)
         | Inr wasmBinary \<Rightarrow> call_initSqlJs env (Some wasmBinary) st)
      else call_initSqlJs env None st)"

definition init_resume :: "exn + 'm \<Rightarrow> 'm process \<Rightarrow> (exn + unit) \<times> 'm process" where
  "init_resume settled st =
     (case settled of
        Inl e \<Rightarrow> (Inl e, st)
      | Inr m \<Rightarrow> (Inr (), st\<lparr>dbModule := Some m\<rparr>))"

definition finish :: "'m pending \<Rightarrow> 'm process \<Rightarrow> (exn + unit) \<times> 'm process" where
  "finish p st = (case p of Finished r \<Rightarrow> (r, st) | Awaiting settled \<Rightarrow> init_resume settled st)"

text \<open>A call that nothing interleaves with: both steps in a row.\<close>

definition initializeDbModule :: "'m loader_env \<Rightarrow> 'm process \<Rightarrow> (exn + unit) \<times> 'm process" where
  "initializeDbModule env st = (case init_begin env st of (p, st') \<Rightarrow> finish p st')"

text \<open>
  Several calls made before any of them has resumed: each runs to its \<open>await\<close> in turn,
  then each continues, in the order the promises were created.
\<close>

fun begin_all :: "'m loader_env list \<Rightarrow> 'm process \<Rightarrow> 'm pending list \<times> 'm process" where
  "begin_all [] st = ([], st)"
| "begin_all (env # envs) st =
     (case init_begin env st of
        (p, st1) \<Rightarrow> (case begin_all envs st1 of (ps, st2) \<Rightarrow> (p # ps, st2)))"

fun resume_all :: "'m pending list \<Rightarrow> 'm process \<Rightarrow> (exn + unit) list \<times> 'm process" where
  "resume_all [] st = ([], st)"
| "resume_all (p # ps) st =
     (case finish p st of
        (r, st1) \<Rightarrow> (case resume_all ps st1 of (rs, st2) \<Rightarrow> (r # rs, st2)))"

definition concurrent_init ::
  "'m loader_env list \<Rightarrow> 'm process \<Rightarrow> (exn + unit) list \<times> 'm process" where
  "concurrent_init envs st = (case begin_all envs st of (ps, st1) \<Rightarrow> resume_all ps st1)"

section \<open>The log extractor (\<open>readDbFileAndQuery\<close>)\<close>

text \<open>
  The initialized module: the \<open>Database\<close> constructor and, for an instance, \<open>exec\<close> and
  \<open>close\<close>. Each either throws or gives its result. One result set of \<open>exec\<close> has the
  column names and the rows (\<open>values\<close> in the library).
\<close>

record 'n query_result =
  columns :: "string list"
  values_of :: "'n jsval list list"

record ('db, 'n) sqljs =
  Database :: "string \<Rightarrow> exn + 'db"
  exec :: "'db \<Rightarrow> string \<Rightarrow> exn + 'n query_result list"
  close :: "'db \<Rightarrow> exn option"

text \<open>
  What happens to database instances, in order (a ghost log). The log is written by the
  three calls themselves: the constructor logs the instance it returns (none when it
  throws), \<open>exec\<close> and \<open>close\<close> log that they were called on an instance, whatever they
  then do.
\<close>

datatype 'db db_event = Constructed 'db | Executed 'db string | Closed 'db

definition new_Database ::
  "('db, 'n) sqljs \<Rightarrow> string \<Rightarrow> 'db db_event list \<Rightarrow> (exn + 'db) \<times> 'db db_event list" where
  "new_Database m filebuffer trace =
     (case Database m filebuffer of
        Inl e \<Rightarrow> (Inl e, trace)
      | Inr db \<Rightarrow> (Inr db, trace @ [Constructed db]))"

definition db_exec ::
  "('db, 'n) sqljs \<Rightarrow> 'db \<Rightarrow> string \<Rightarrow> 'db db_event list \<Rightarrow>
   (exn + 'n query_result list) \<times> 'db db_event list" where
  "db_exec m db sql trace = (exec m db sql, trace @ [Executed db sql])"

definition db_close ::
  "('db, 'n) sqljs \<Rightarrow> 'db \<Rightarrow> 'db db_event list \<Rightarrow> exn option \<times> 'db db_event list" where
  "db_close m db trace = (close m db, trace @ [Closed db])"

definition log_query :: string where
  "log_query =
     ''SELECT sl, sensor_name, status, temperature, timestamp FROM temp_logs ORDER BY sl DESC''"

text \<open>\<open>row[index]\<close>: \<open>undefined\<close> beyond the end of the row.\<close>

definition row_at :: "'n jsval list \<Rightarrow> nat \<Rightarrow> 'n jsval" where
  "row_at row index = (if index < length row then row ! index else JUndefined)"

text \<open>
  An array index is the decimal writing, without leading zeros, of a number up to
  \<open>2^32 - 2\<close>.
\<close>

definition is_digit :: "char \<Rightarrow> bool" where
  "is_digit c = (48 \<le> (of_char c :: nat) \<and> (of_char c :: nat) \<le> 57)"

definition index_value :: "string \<Rightarrow> nat" where
  "index_value s = foldl (\<lambda>n c. 10 * n + ((of_char c :: nat) - 48)) 0 s"

definition is_array_index :: "string \<Rightarrow> bool" where
  "is_array_index s =
     (s \<noteq> [] \<and> list_all is_digit s \<and> (s = ''0'' \<or> hd s \<noteq> CHR ''0'') \<and>
      index_value s < 4294967295)"

text \<open>A new array index goes among the indices at the front, in ascending order.\<close>

fun insert_index :: "string \<Rightarrow> 'v \<Rightarrow> (string \<times> 'v) list \<Rightarrow> (string \<times> 'v) list" where
  "insert_index k v [] = [(k, v)]"
| "insert_index k v ((k', v') # rest) =
     (if is_array_index k' \<and> index_value k' < index_value k
      then (k', v') # insert_index k v rest
      else (k, v) # (k', v') # rest)"

text \<open>
  \<open>entry[col] = value\<close> on the object under construction, kept with a flag: whether its
  prototype is still \<open>Object.prototype\<close>. A name the entry has keeps its place and gets the
  value. Otherwise \<open>__proto__\<close>, while inherited, is the prototype's setter: it creates no
  property, and the value \<open>null\<close> takes the prototype away (a primitive is ignored). Any
  other name becomes a new property.
\<close>

definition js_assign :: "string \<Rightarrow> 'n jsval \<Rightarrow> 'n entry \<times> bool \<Rightarrow> 'n entry \<times> bool" where
  "js_assign k v object =
     (case object of
        (obj, inherits) \<Rightarrow>
          if k \<in> set (map fst obj) then (AList.update k v obj, inherits)
          else if k = ''__proto__'' \<and> inherits
            then (obj, case v of JNull \<Rightarrow> False | _ \<Rightarrow> True)
          else if is_array_index k then (insert_index k v obj, inherits)
          else (obj @ [(k, v)], inherits))"

text \<open>
  \<open>columns.forEach((col, index) => { entry[col] = row[index]; })\<close> on a fresh object. The
  result is the entry's own properties: that is all that \<open>Object.keys\<close>, the reply sent to
  the window and the exporter can see of it.
\<close>

definition make_entry :: "string list \<Rightarrow> 'n jsval list \<Rightarrow> 'n entry" where
  "make_entry cols row =
     fst (fold (\<lambda>(col, index) object. js_assign col (row_at row index) object)
            (zip cols [0..<length cols]) ([], True))"

definition query_data :: "'n query_result list \<Rightarrow> 'n entry list" where
  "query_data result =
     (case result of
        [] \<Rightarrow> []
      | r0 # _ \<Rightarrow>
          if values_of r0 = [] then [] else map (make_entry (columns r0)) (values_of r0))"

text \<open>The \<open>catch\<close> block: whatever was thrown in the \<open>try\<close> is replaced by one new error.\<close>

definition process_error :: "exn \<Rightarrow> exn" where
  "process_error e = Error (''Failed to process database file: '' @ message_of e)"

text \<open>
  The function gives its outcome (the error thrown or the entries returned) and the ghost
  log of its calls. The \<open>finally\<close> block closes the instance when one was constructed; an
  error thrown by \<open>close\<close> there replaces the outcome.
\<close>

definition readDbFileAndQuery ::
  "(string \<Rightarrow> exn + string) \<Rightarrow> ('db, 'n) sqljs process \<Rightarrow> string \<Rightarrow>
   (exn + 'n entry list) \<times> 'db db_event list" where
  "readDbFileAndQuery readFileSync st path =
     (case dbModule st of
        None \<Rightarrow> (Inl (Error ''SQL.js library not initialized.''), [])
      | Some m \<Rightarrow>
          (case readFileSync path of
             Inl e \<Rightarrow> (Inl (process_error e), [])
           | Inr filebuffer \<Rightarrow>
               (case new_Database m filebuffer [] of
                  (Inl e, trace) \<Rightarrow> (Inl (process_error e), trace)
                | (Inr db, trace1) \<Rightarrow>
                    (case db_exec m db log_query trace1 of
                       (answer, trace2) \<Rightarrow>
                         (case db_close m db trace2 of
                            (closing, trace3) \<Rightarrow>
                              (case closing of
                                 Some e \<Rightarrow> Inl e
                               | None \<Rightarrow>
                                   (case answer of
                                      Inl e \<Rightarrow> Inl (process_error e)
                                    | Inr result \<Rightarrow> Inr (query_data result)),
                               trace3))))))"

text \<open>
  The handler \<open>load-database-log\<close>; the open dialog's answer and \<open>path.basename\<close> are
  inputs.
\<close>

definition load_database_log ::
  "(string \<Rightarrow> string) \<Rightarrow> (string \<Rightarrow> exn + string) \<Rightarrow> ('db, 'n) sqljs process \<Rightarrow>
   bool \<Rightarrow> string list \<Rightarrow> 'n reply \<times> 'db db_event list" where
  "load_database_log basename readFileSync st canceled filePaths =
     (case filePaths of
        [] \<Rightarrow> (failure ''Canceled'', [])
      | path # _ \<Rightarrow>
          if canceled then (failure ''Canceled'', [])
          else (case readDbFileAndQuery readFileSync st path of
                  (Inr entries, events) \<Rightarrow>
                    (\<lparr>success = True, message = None, filePath = Some path,
                      fileName = Some (basename path), data = Some entries\<rparr>, events)
                | (Inl e, events) \<Rightarrow>
                    (\<lparr>success = False, message = Some (message_of e), filePath = Some path,
                      fileName = None, data = None\<rparr>, events)))"

section \<open>The rules of the specification, for comparison\<close>

text \<open>
  The rendering rule for one field as the specification words it, on the value read from
  the record: \<open>null\<close> and \<open>undefined\<close> give the empty text; a text with a comma is wrapped
  in double quotes with every double quote doubled; everything else is rendered as it is.
\<close>

definition rendered_field :: "('n \<Rightarrow> string) \<Rightarrow> 'n jsval \<Rightarrow> string" where
  "rendered_field num field =
     (case field of
        JNull \<Rightarrow> []
      | JUndefined \<Rightarrow> []
      | JString s \<Rightarrow>
          (if CHR '','' \<in> set s
           then [CHR 0x22] @ concat (map (\<lambda>c. if c = CHR 0x22 then [c, c] else [c]) s) @ [CHR 0x22]
           else s)
      | JNumber n \<Rightarrow> num n
      | JBoolean b \<Rightarrow> (if b then ''true'' else ''false'')
      | JFunction f \<Rightarrow> ''function '' @ f @ ''() { [native code] }''
      | JObjectPrototype \<Rightarrow> ''[object Object]'')"

text \<open>
  A caller of the loader gets as far as \<open>initSqlJs\<close> when the binary is absent, or present
  and readable.
\<close>

definition invokes_initSqlJs :: "'m loader_env \<Rightarrow> bool" where
  "invokes_initSqlJs env =
     (if existsSync env (WASM_PATH env)
      then (case wasm_readFileSync env (WASM_PATH env) of Inl e \<Rightarrow> False | Inr b \<Rightarrow> True)
      else True)"


fun js_less_eq :: "('n::linorder) jsval \<Rightarrow> 'n jsval \<Rightarrow> bool" where
  "js_less_eq (JNumber a) (JNumber b) = (a \<le> b)"
| "js_less_eq _ _ = False"


section \<open>Sample inputs\<close>

text \<open>
  A small installation to run the functions on: a file system with one backup of the log
  table, one file that is not a database and nothing else; an engine whose instance is the
  content it was given, and which answers the query on the backup with two rows, newest
  first, and fails on any other content.
\<close>

definition sample_columns :: "string list" where
  "sample_columns = [''sl'', ''sensor_name'', ''status'', ''temperature'', ''timestamp'']"

definition sample_rows :: "real jsval list list" where
  "sample_rows =
     [[JNumber 2, JString ''probe, rear'', JString ''OK'', JNumber 21.5,
       JString ''2024-01-02T00:00:00Z''],
      [JNumber 1, JString ''probe'', JNull, JNumber 19, JString ''2024-01-01T00:00:00Z'']]"

text \<open>How the numbers of the samples are written.\<close>

definition sample_num :: "real \<Rightarrow> string" where
  "sample_num x =
     (if x = 1 then ''1'' else if x = 2 then ''2'' else if x = 19 then ''19''
      else if x = 20 then ''20'' else ''21.5'')"

definition sample_fs :: "string \<Rightarrow> exn + string" where
  "sample_fs path =
     (if path = ''backup.db'' then Inr ''SQLite format 3''
      else if path = ''notes.db'' then Inr ''plain text''
      else Inl (Error ''ENOENT: no such file or directory''))"

definition sample_engine :: "(string, real) sqljs" where
  "sample_engine =
     \<lparr>Database = (\<lambda>buffer. Inr buffer),
      exec = (\<lambda>db sql. if db = ''SQLite format 3''
                        then Inr [\<lparr>columns = sample_columns, values_of = sample_rows\<rparr>]
                        else Inl (Error ''file is not a database'')),
      close = (\<lambda>db. None)\<rparr>"

definition sample_ready :: "(string, real) sqljs process" where
  "sample_ready = \<lparr>dbModule = Some sample_engine, initSqlJs_calls = 1\<rparr>"

text \<open>The same installation with an empty log table, and with no log table at all.\<close>

definition empty_table_ready :: "(string, real) sqljs process" where
  "empty_table_ready =
     \<lparr>dbModule = Some (sample_engine\<lparr>exec := (\<lambda>db sql. Inr [])\<rparr>), initSqlJs_calls = 1\<rparr>"

definition no_table_ready :: "(string, real) sqljs process" where
  "no_table_ready =
     \<lparr>dbModule = Some (sample_engine\<lparr>exec := (\<lambda>db sql. Inl (Error ''no such table: temp_logs''))\<rparr>),
      initSqlJs_calls = 1\<rparr>"

text \<open>
  An engine that cannot construct an instance; a log table in which a serial number
  occurs twice; an instance that cannot be closed.
\<close>

definition no_memory_ready :: "(string, real) sqljs process" where
  "no_memory_ready =
     \<lparr>dbModule = Some (sample_engine\<lparr>Database := (\<lambda>buffer. Inl (Error ''out of memory''))\<rparr>),
      initSqlJs_calls = 1\<rparr>"



definition stuck_ready :: "(string, real) sqljs process" where
  "stuck_ready =
     \<lparr>dbModule = Some (sample_engine\<lparr>close := (\<lambda>db. Some (Error ''database is locked''))\<rparr>),
      initSqlJs_calls = 1\<rparr>"

text \<open>A packaged application without the binary beside it; the library initializes.\<close>

definition sample_env :: "(string, real) sqljs loader_env" where
  "sample_env =
     \<lparr>NODE_ENV = None, dirname = ''/app'', resourcesPath = ''/res'',
      path_join = (\<lambda>parts. js_join ''/'' parts),
      existsSync = (\<lambda>path. False),
      wasm_readFileSync = (\<lambda>path. Inl (Error ''ENOENT: no such file or directory'')),
      initSqlJs = (\<lambda>config. Inr sample_engine)\<rparr>"

definition failing_env :: "(string, real) sqljs loader_env" where
  "failing_env = sample_env\<lparr>initSqlJs := (\<lambda>config. Inl (Error ''wasm streaming compile failed''))\<rparr>"

text \<open>
  A development checkout with the binary in place, where the library rejects the binary;
  and the same checkout with a binary that cannot be read.
\<close>

definition bundled_env :: "(string, real) sqljs loader_env" where
  "bundled_env =
     sample_env
       \<lparr>NODE_ENV := Some ''development'',
        existsSync := (\<lambda>path. path = ''/app/node_modules/sql.js/dist/sql-wasm.wasm''),
        wasm_readFileSync := (\<lambda>path. Inr ''asm''),
        initSqlJs := (\<lambda>config. case config of
                                  None \<Rightarrow> Inr sample_engine
                                | Some wasmBinary \<Rightarrow> Inl (Error ''invalid wasm binary''))\<rparr>"

definition unreadable_env :: "(string, real) sqljs loader_env" where
  "unreadable_env =
     bundled_env\<lparr>wasm_readFileSync := (\<lambda>path. Inl (Error ''EACCES: permission denied''))\<rparr>"

text \<open>The development checkout when the library accepts the binary.\<close>

definition accepting_env :: "(string, real) sqljs loader_env" where
  "accepting_env = bundled_env\<lparr>initSqlJs := (\<lambda>config. Inr sample_engine)\<rparr>"

definition fresh :: "(string, real) sqljs process" where
  "fresh = \<lparr>dbModule = None, initSqlJs_calls = 0\<rparr>"

section \<open>Properties of the exporter\<close>

subsection \<open>Joins, cells and rows\<close>

lemma js_join_Cons: "js_join sep (x # xs) = x @ concat (map (\<lambda>y. sep @ y) xs)"
  by (induction xs arbitrary: x) auto

lemma count_js_join:
  "count_list (js_join [c] xs) c = (length xs - 1) + sum_list (map (\<lambda>x. count_list x c) xs)"
  by (induction "[c]" xs rule: js_join.induct) auto

lemma replace_quotes_spec:
  "replace_quotes s = concat (map (\<lambda>c. if c = CHR 0x22 then [c, c] else [c]) s)"
  by (induction s) (auto simp: replace_quotes_def dquote_def)

lemma count_quotes: "count_list (replace_quotes s) dquote = 2 * count_list s dquote"
  by (induction s) (auto simp: replace_quotes_def)

lemma other_chars:
  "filter (\<lambda>c. c \<noteq> dquote) (replace_quotes s) = filter (\<lambda>c. c \<noteq> dquote) s"
  by (induction s) (auto simp: replace_quotes_def)

lemma cell_rendered: "element_text num (csv_cell v) = rendered_field num v"
  by (simp add: element_text_def csv_cell_def rendered_field_def includes_comma_def
      replace_quotes_spec dquote_def split: jsval.split)

lemma csvRow_cells:
  "csvRow num headers =
     (\<lambda>row. js_join '','' (map (\<lambda>h. element_text num (csv_cell (js_get row h))) headers))"
  by (rule ext) (simp add: csvRow_def Array_join_def comp_def)

lemma csvRow_rendered:
  "csvRow num headers =
     (\<lambda>row. js_join '','' (map (\<lambda>h. rendered_field num (js_get row h)) headers))"
  by (simp add: csvRow_cells cell_rendered)

lemma exportCsv_Cons:
  "exportCsv num (Some (r # rs)) =
     Inr (js_join ''\<newline>''
           (csvHeaders (Object_keys r) # map (csvRow num (Object_keys r)) (r # rs)))"
  by (simp add: exportCsv_def csvRows_def Let_def)

lemma keys_only:
  assumes "\<forall>h \<in> set headers. js_get row h = js_get row' h"
  shows "csvRow num headers row = csvRow num headers row'"
  using assms by (simp add: csvRow_rendered cong: map_cong)

lemma not_inherited:
  "h \<notin> set Object_prototype_names \<Longrightarrow> Object_prototype h = JUndefined"
  by (simp add: Object_prototype_def Object_prototype_names_def)

lemma js_get_missing:
  assumes "h \<notin> set (Object_keys row)" "h \<notin> set Object_prototype_names"
  shows "js_get row h = JUndefined"
proof -
  have "map_of row h = None"
    using assms(1) by (simp add: Object_keys_def map_of_eq_None_iff)
  then show ?thesis using assms(2) by (simp add: js_get_def not_inherited)
qed

lemma upper_names:
  "toUpperCase ''sl'' = ''SL''" "toUpperCase ''status'' = ''STATUS''"
  "toUpperCase ''note'' = ''NOTE''" "toUpperCase ''constructor'' = ''CONSTRUCTOR''"
  "toUpperCase ''toString'' = ''TOSTRING''"
  by code_simp+

subsection \<open>The claims about the exporter\<close>

text \<open>
  C1, as the code has it. For a non-empty sequence the document is the header line and
  one line per record, joined with newlines; a record's line is the comma-join of its
  fields taken in the header's field order, each the value read from the record and
  rendered by the specification's rule (\<open>rendered_field\<close>): empty for \<open>null\<close> and
  \<open>undefined\<close>, quoted with doubled quotes for a text with a comma, verbatim otherwise. A
  field the record lacks reads as \<open>undefined\<close>, and so renders empty, provided
  \<open>Object.prototype\<close> has no member of that name. A line has one comma for each field
  but the first, besides the commas inside its fields. A text is quoted exactly when it
  has a comma; quoting doubles each double quote and changes nothing else. A text with a
  double quote and no comma comes out unchanged.
\<close>

theorem csv_rows_rendered:
  \<open>exportCsv num (Some (r # rs)) =
     Inr (js_join ''\<newline>'' (csvHeaders (Object_keys r) #
            map (\<lambda>row. js_join '','' (map (\<lambda>h. rendered_field num (js_get row h)) (Object_keys r)))
              (r # rs))) \<and>
   (h \<notin> set (Object_keys row) \<and> h \<notin> set Object_prototype_names \<longrightarrow>
      js_get row h = JUndefined \<and> element_text num (csv_cell (js_get row h)) = []) \<and>
   element_text num (csv_cell JNull) = [] \<and>
   element_text num (csv_cell JUndefined) = [] \<and>
   element_text num (csv_cell (JNumber n)) = num n \<and>
   element_text num (csv_cell (JString s)) =
     (if CHR '','' \<in> set s then [dquote] @ replace_quotes s @ [dquote] else s) \<and>
   count_list (replace_quotes s) dquote = 2 * count_list s dquote \<and>
   filter (\<lambda>c. c \<noteq> dquote) (replace_quotes s) = filter (\<lambda>c. c \<noteq> dquote) s \<and>
   count_list (csvRow num (Object_keys r) row) CHR '','' =
     (length (Object_keys r) - 1) +
     sum_list (map (\<lambda>h. count_list (rendered_field num (js_get row h)) CHR '','') (Object_keys r)) \<and>
   exportCsv num (Some [[(''note'', JString ''He said "hi"'')]]) = Inr ''NOTE\<newline>He said "hi"'' \<and>
   exportCsv num (Some [[(''note'', JString ''He said, "hi"'')]]) =
     Inr ''NOTE\<newline>"He said, ""hi"""''\<close>
proof -
  have a: "exportCsv num (Some [[(''note'', JString t)]]) =
             Inr (''NOTE\<newline>'' @ element_text num (csv_cell (JString t)))" for t
    by (simp add: exportCsv_Cons csvHeaders_def relabel_def upper_names Object_keys_def
        csvRow_def Array_join_def js_get_def)
  have b: "element_text num (csv_cell (JString t)) =
     (if CHR '','' \<in> set t then [dquote] @ replace_quotes t @ [dquote] else t)" for t
    by (simp add: element_text_def csv_cell_def includes_comma_def)
  have c: "count_list (csvRow num (Object_keys r) row) CHR '','' =
     (length (Object_keys r) - 1) +
     sum_list (map (\<lambda>h. count_list (rendered_field num (js_get row h)) CHR '','') (Object_keys r))"
    using count_js_join [of "CHR '',''" "map (\<lambda>h. rendered_field num (js_get row h)) (Object_keys r)"]
    by (simp add: csvRow_rendered comp_def)
  show ?thesis
    apply (intro conjI impI)
               apply (simp add: exportCsv_Cons csvRow_rendered)
              apply (simp add: js_get_missing)
             apply (simp add: js_get_missing element_text_def csv_cell_def)
            apply (simp add: element_text_def csv_cell_def)
           apply (simp add: element_text_def csv_cell_def)
          apply (simp add: element_text_def csv_cell_def)
         apply (rule b)
        apply (rule count_quotes)
       apply (rule other_chars)
      apply (rule c)
     apply (simp add: a b)
    apply (simp add: a b replace_quotes_def dquote_def)
    done
qed

theorem csv_rows_rendered_witness:
  "js_get [(''sl'', JNumber 2)] ''status'' = (JUndefined :: real jsval) \<and>
   element_text sample_num (csv_cell (js_get [(''sl'', JNumber 2)] ''status'')) = [] \<and>
   exportCsv sample_num
     (Some [[(''sl'', JNumber 1), (''status'', JString ''OK'')], [(''sl'', JNumber 2)]]) =
   Inr ''SL,STATUS\<newline>1,OK\<newline>2,''"
proof -
  have lacks: "''status'' \<notin> set (Object_keys [(''sl'', JNumber (2::real))])"
    by (simp add: Object_keys_def)
  have plain: "''status'' \<notin> set Object_prototype_names"
    by (simp add: Object_prototype_names_def Object_prototype_methods_def)
  have cells:
    "rendered_field sample_num (JNumber 1) = ''1''" "rendered_field sample_num (JNumber 2) = ''2''"
    "rendered_field sample_num (JString ''OK'') = ''OK''"
    "rendered_field sample_num JUndefined = []"
    by (simp_all add: rendered_field_def sample_num_def)
  have hdr: "csvHeaders [''sl'', ''status''] = ''SL,STATUS''"
    by (simp add: csvHeaders_def relabel_def upper_names)
  from csv_rows_rendered [of sample_num "[(''sl'', JNumber 1), (''status'', JString ''OK'')]"
      "[[(''sl'', JNumber 2)]]" "''status''" "[(''sl'', JNumber 2)]" 1 "[]"]
  show ?thesis
    using lacks plain by (simp add: Object_keys_def js_get_def cells hdr)
qed

text \<open>
  C1 as stated does not hold: a field that the record lacks is not always written as the
  empty text. The second record has no \<open>constructor\<close>; its line starts with the text of
  the function that every object inherits under that name.
\<close>

theorem missing_field_not_empty:
  "exportCsv sample_num
     (Some [[(''constructor'', JString ''c''), (''sl'', JNumber 1)], [(''sl'', JNumber 2)]]) =
   Inr ''CONSTRUCTOR,SL\<newline>c,1\<newline>function Object() { [native code] },2''"
  by (simp add: exportCsv_Cons csvHeaders_def relabel_def upper_names Object_keys_def
      csvRow_def Array_join_def js_get_def Object_prototype_def csv_cell_def element_text_def
      includes_comma_def sample_num_def)

text \<open>
  C2. For a non-empty sequence the document starts with the header line: the names of the
  first record's fields, in their order, relabelled and joined with commas; every record
  line follows after a newline. The three fixed labels are as listed and any other name
  is put in upper case. The five log fields give the header of the specification, and
  the specification's example record gives its example row (for a number formatting that
  writes 1 as \<open>1\<close> and 21.5 as \<open>21.5\<close>).
\<close>

theorem csv_header_line:
  \<open>exportCsv num (Some (r # rs)) =
     Inr (js_join '','' (map relabel (map fst r)) @
          concat (map (\<lambda>row. ''\<newline>'' @ csvRow num (map fst r) row) (r # rs))) \<and>
   relabel ''sensor_name'' = ''Sensor Name'' \<and>
   relabel ''temperature'' = ''Temperature (C)'' \<and>
   relabel ''timestamp'' = ''Time Stamp'' \<and>
   (h \<noteq> ''sensor_name'' \<and> h \<noteq> ''temperature'' \<and> h \<noteq> ''timestamp'' \<longrightarrow>
      relabel h = toUpperCase h) \<and>
   csvHeaders [''sl'', ''sensor_name'', ''status'', ''temperature'', ''timestamp''] =
     ''SL,Sensor Name,STATUS,Temperature (C),Time Stamp'' \<and>
   (fmt (1::real) = ''1'' \<and> fmt 21.5 = ''21.5'' \<longrightarrow>
      exportCsv fmt (Some [[(''sl'', JNumber 1), (''sensor_name'', JString ''A,B''),
         (''status'', JString ''OK''), (''temperature'', JNumber 21.5),
         (''timestamp'', JString ''2024-01-01T00:00:00Z'')]]) =
      Inr ''SL,Sensor Name,STATUS,Temperature (C),Time Stamp\<newline>1,"A,B",OK,21.5,2024-01-01T00:00:00Z'')\<close>
proof -
  have hdr: "csvHeaders [''sl'', ''sensor_name'', ''status'', ''temperature'', ''timestamp''] =
     ''SL,Sensor Name,STATUS,Temperature (C),Time Stamp''"
    by (simp add: csvHeaders_def relabel_def upper_names)
  show ?thesis
    apply (intro conjI)
          apply (simp add: exportCsv_Cons js_join_Cons csvHeaders_def Object_keys_def comp_def)
         apply (simp add: relabel_def)
        apply (simp add: relabel_def)
       apply (simp add: relabel_def)
      apply (simp add: relabel_def)
     apply (rule hdr)
    apply (simp add: exportCsv_Cons hdr Object_keys_def csvRow_def Array_join_def js_get_def
        csv_cell_def element_text_def includes_comma_def replace_quotes_def dquote_def)
    done
qed

theorem csv_header_line_witness:
  \<open>relabel ''status'' = toUpperCase ''status'' \<and>
   exportCsv (\<lambda>x::real. if x = 1 then ''1'' else ''21.5'')
     (Some [[(''sl'', JNumber 1), (''sensor_name'', JString ''A,B''),
         (''status'', JString ''OK''), (''temperature'', JNumber 21.5),
         (''timestamp'', JString ''2024-01-01T00:00:00Z'')]]) =
   Inr ''SL,Sensor Name,STATUS,Temperature (C),Time Stamp\<newline>1,"A,B",OK,21.5,2024-01-01T00:00:00Z''\<close>
  using csv_header_line [where h = "''status''"
      and fmt = "\<lambda>x::real. if x = 1 then ''1'' else ''21.5''"
      and num = "\<lambda>x::real. if x = 1 then ''1'' else ''21.5''" and r = "[]" and rs = "[]"]
  by simp


text \<open>
  C6. Without data (an absent argument or an empty sequence) the export handler answers
  with the no-data failure and writes nothing; no document is produced. For every
  non-empty sequence a document is produced and the reply, whatever the dialog and the
  write do, is never the no-data failure.
\<close>

theorem exportCsv_no_data:
  "exportCsv num None = Inl no_data_message \<and>
   exportCsv num (Some []) = Inl no_data_message \<and>
   export_to_csv num canceled chosen wr None = (failure no_data_message, None) \<and>
   export_to_csv num canceled chosen wr (Some []) = (failure no_data_message, None) \<and>
   (\<exists>doc. exportCsv num (Some (r # rs)) = Inr doc) \<and>
   message (fst (export_to_csv num canceled chosen wr (Some (r # rs)))) \<noteq> Some no_data_message"
  by (simp add: exportCsv_def export_to_csv_def no_data_message_def failure_def Let_def
      split: option.split)

text \<open>
  C10, as the code has it. Rows are rendered from the first record's field names alone.
  The header and every record line are comma-joins over that one list of names, so each
  has one comma for each name but the first, besides the commas inside its fields. A
  field whose name the first record does not have never reaches the document: setting or
  removing it in any later record leaves the document as it was. A name that a record
  lacks is rendered as the empty text, provided \<open>Object.prototype\<close> has no member of
  that name.
\<close>

theorem rows_follow_first_record:
  "exportCsv num (Some (r # rs)) =
     Inr (js_join ''\<newline>'' (js_join '','' (map relabel (Object_keys r)) #
            map (\<lambda>row. js_join '','' (map (\<lambda>h. element_text num (csv_cell (js_get row h)))
                                     (Object_keys r))) (r # rs))) \<and>
   count_list (csvHeaders (Object_keys r)) CHR '','' =
     (length (Object_keys r) - 1) +
     sum_list (map (\<lambda>h. count_list (relabel h) CHR '','') (Object_keys r)) \<and>
   count_list (csvRow num (Object_keys r) row) CHR '','' =
     (length (Object_keys r) - 1) +
     sum_list (map (\<lambda>h. count_list (element_text num (csv_cell (js_get row h))) CHR '','')
                 (Object_keys r)) \<and>
   (k \<notin> set (Object_keys r) \<longrightarrow>
      exportCsv num (Some (r # before @ AList.update k v row # after)) =
      exportCsv num (Some (r # before @ row # after)) \<and>
      exportCsv num (Some (r # before @ AList.delete k row # after)) =
      exportCsv num (Some (r # before @ row # after))) \<and>
   (h \<notin> set (Object_keys row) \<and> h \<notin> set Object_prototype_names \<longrightarrow>
      element_text num (csv_cell (js_get row h)) = [])"
proof (intro conjI impI)
  show "exportCsv num (Some (r # rs)) =
     Inr (js_join ''\<newline>'' (js_join '','' (map relabel (Object_keys r)) #
            map (\<lambda>row. js_join '','' (map (\<lambda>h. element_text num (csv_cell (js_get row h)))
                                     (Object_keys r))) (r # rs)))"
    by (simp add: exportCsv_Cons csvHeaders_def csvRow_cells)
  show "count_list (csvHeaders (Object_keys r)) CHR '','' =
     (length (Object_keys r) - 1) +
     sum_list (map (\<lambda>h. count_list (relabel h) CHR '','') (Object_keys r))"
    using count_js_join [of "CHR '',''" "map relabel (Object_keys r)"]
    by (simp add: csvHeaders_def comp_def)
  show "count_list (csvRow num (Object_keys r) row) CHR '','' =
     (length (Object_keys r) - 1) +
     sum_list (map (\<lambda>h. count_list (element_text num (csv_cell (js_get row h))) CHR '','')
                 (Object_keys r))"
    using count_js_join [of "CHR '',''"
        "map (\<lambda>h. element_text num (csv_cell (js_get row h))) (Object_keys r)"]
    by (simp add: csvRow_cells comp_def)
next
  assume k: "k \<notin> set (Object_keys r)"
  have "csvRow num (Object_keys r) (AList.update k v row) = csvRow num (Object_keys r) row"
    using k by (intro keys_only) (auto simp: js_get_def update_conv')
  then show "exportCsv num (Some (r # before @ AList.update k v row # after)) =
      exportCsv num (Some (r # before @ row # after))"
    by (simp add: exportCsv_Cons)
  have "csvRow num (Object_keys r) (AList.delete k row) = csvRow num (Object_keys r) row"
    using k by (intro keys_only) (auto simp: js_get_def delete_conv')
  then show "exportCsv num (Some (r # before @ AList.delete k row # after)) =
      exportCsv num (Some (r # before @ row # after))"
    by (simp add: exportCsv_Cons)
next
  assume "h \<notin> set (Object_keys row) \<and> h \<notin> set Object_prototype_names"
  then have "js_get row h = JUndefined" by (simp add: js_get_missing)
  then show "element_text num (csv_cell (js_get row h)) = []"
    by (simp add: csv_cell_def element_text_def)
qed

theorem rows_follow_first_record_witness:
  "exportCsv sample_num
     (Some [[(''sl'', JNumber 1), (''status'', JString ''OK'')],
            [(''status'', JString ''LOW''), (''note'', JString ''dropped'')]]) =
   exportCsv sample_num
     (Some [[(''sl'', JNumber 1), (''status'', JString ''OK'')], [(''status'', JString ''LOW'')]]) \<and>
   element_text sample_num (csv_cell (js_get [(''status'', JString ''LOW'')] ''sl'')) = []"
proof -
  have plain: "''sl'' \<notin> set Object_prototype_names"
    by (simp add: Object_prototype_names_def Object_prototype_methods_def)
  show ?thesis
    using rows_follow_first_record [where num = sample_num
      and r = "[(''sl'', JNumber 1), (''status'', JString ''OK'')]" and rs = "[]"
      and k = "''note''" and v = "JString ''dropped''" and row = "[(''status'', JString ''LOW'')]"
      and before = "[]" and after = "[]" and h = "''sl''"] plain
    by (simp add: Object_keys_def)
qed

text \<open>
  C10 as stated does not hold: a first-record name that a later record lacks is not
  always written as the empty text. The second record has no \<open>toString\<close>; its line
  starts with the text of the method that every object inherits under that name.
\<close>

theorem inherited_name_not_empty:
  "exportCsv sample_num
     (Some [[(''toString'', JString ''t''), (''status'', JString ''OK'')],
            [(''status'', JString ''LOW'')]]) =
   Inr ''TOSTRING,STATUS\<newline>t,OK\<newline>function toString() { [native code] },LOW''"
  by (simp add: exportCsv_Cons csvHeaders_def relabel_def upper_names Object_keys_def
      csvRow_def Array_join_def js_get_def Object_prototype_def Object_prototype_methods_def
      csv_cell_def element_text_def includes_comma_def)

section \<open>Properties of the extractor\<close>

subsection \<open>Building one entry\<close>

lemma fold_assign_append:
  assumes "distinct (map fst acc @ map fst kvs)"
    and "\<forall>k \<in> fst ` set kvs. k \<noteq> ''__proto__'' \<and> \<not> is_array_index k"
  shows "fold (\<lambda>(k, v) object. js_assign k v object) kvs (acc, inherits) = (acc @ kvs, inherits)"
  using assms
proof (induction kvs arbitrary: acc)
  case Nil
  then show ?case by simp
next
  case (Cons kv kvs)
  obtain k v where kv: "kv = (k, v)" by (cases kv)
  have notin: "k \<notin> set (map fst acc)" using Cons.prems(1) kv by auto
  have name: "k \<noteq> ''__proto__''" "\<not> is_array_index k" using Cons.prems(2) kv by auto
  have step: "js_assign k v (acc, inherits) = (acc @ [(k, v)], inherits)"
    using notin name by (simp add: js_assign_def)
  have "distinct (map fst (acc @ [(k, v)]) @ map fst kvs)"
    using Cons.prems(1) kv by auto
  moreover have "\<forall>k \<in> fst ` set kvs. k \<noteq> ''__proto__'' \<and> \<not> is_array_index k"
    using Cons.prems(2) by auto
  ultimately have
    "fold (\<lambda>(k, v) object. js_assign k v object) kvs (acc @ [(k, v)], inherits) =
       ((acc @ [(k, v)]) @ kvs, inherits)"
    by (rule Cons.IH)
  then show ?case using kv step by simp
qed

lemma make_entry_zip:
  assumes "distinct cols" "''__proto__'' \<notin> set cols" "\<forall>c \<in> set cols. \<not> is_array_index c"
  shows "make_entry cols row = zip cols (map (row_at row) [0..<length cols])"
proof -
  let ?kvs = "zip cols (map (row_at row) [0..<length cols])"
  have "fold (\<lambda>(col, index) object. js_assign col (row_at row index) object)
          (zip cols [0..<length cols]) ([], True)
        = fold (\<lambda>(k, v) object. js_assign k v object)
            (map (\<lambda>(c, i). (c, row_at row i)) (zip cols [0..<length cols])) ([], True)"
    by (simp add: fold_map comp_def case_prod_unfold)
  also have "map (\<lambda>(c, i). (c, row_at row i)) (zip cols [0..<length cols]) = ?kvs"
    by (simp add: zip_map2)
  also have "fold (\<lambda>(k, v) object. js_assign k v object) ?kvs ([], True) = ([] @ ?kvs, True)"
  proof (rule fold_assign_append)
    show "distinct (map fst [] @ map fst ?kvs)" using assms(1) by simp
    show "\<forall>k \<in> fst ` set ?kvs. k \<noteq> ''__proto__'' \<and> \<not> is_array_index k"
      using assms(2,3) by (auto dest: set_zip_leftD)
  qed
  finally show ?thesis by (simp add: make_entry_def)
qed

lemma row_at_all: "length row = n \<Longrightarrow> map (row_at row) [0..<n] = row"
  by (auto simp: row_at_def intro: nth_equalityI)

lemma make_entry_zip_row:
  "distinct cols \<Longrightarrow> ''__proto__'' \<notin> set cols \<Longrightarrow> \<forall>c \<in> set cols. \<not> is_array_index c \<Longrightarrow>
   length row = length cols \<Longrightarrow> make_entry cols row = zip cols row"
  by (simp add: make_entry_zip row_at_all)


lemma sample_names:
  "distinct sample_columns" "''__proto__'' \<notin> set sample_columns"
  "\<forall>c \<in> set sample_columns. \<not> is_array_index c"
  by (simp_all add: sample_columns_def is_array_index_def is_digit_def)

subsection \<open>The paths through the function\<close>


lemma readDbFileAndQuery_success:
  assumes "dbModule st = Some m" "readFileSync path = Inr buf" "Database m buf = Inr db"
    "exec m db log_query = Inr result" "close m db = None"
  shows "readDbFileAndQuery readFileSync st path =
           (Inr (query_data result), [Constructed db, Executed db log_query, Closed db])"
  using assms by (simp add: readDbFileAndQuery_def new_Database_def db_exec_def db_close_def)

subsection \<open>The claims about the extractor\<close>




text \<open>
  C5. When the query answers with no result set, or with a result set without rows, the
  function returns the empty sequence; that is a result, not an error.
\<close>

theorem extract_empty_table:
  assumes ready: "dbModule st = Some m"
    and rd: "readFileSync path = Inr buf"
    and op: "Database m buf = Inr db"
    and ex: "exec m db log_query = Inr result"
    and cl: "close m db = None"
    and empty: "result = [] \<or> values_of (hd result) = []"
  shows "fst (readDbFileAndQuery readFileSync st path) = Inr [] \<and>
         (\<forall>e. fst (readDbFileAndQuery readFileSync st path) \<noteq> Inl e)"
proof -
  have "query_data result = []"
    using empty by (cases result) (auto simp: query_data_def)
  then show ?thesis
    using ready rd op ex cl by (simp add: readDbFileAndQuery_success)
qed

theorem extract_empty_table_witness:
  "fst (readDbFileAndQuery sample_fs empty_table_ready ''backup.db'') = Inr [] \<and>
   fst (readDbFileAndQuery sample_fs
          \<lparr>dbModule = Some (sample_engine\<lparr>exec := (\<lambda>db sql. Inr [\<lparr>columns = sample_columns, values_of = []\<rparr>])\<rparr>),
           initSqlJs_calls = 1\<rparr> ''backup.db'') = Inr []"
proof -
  have fs: "sample_fs ''backup.db'' = Inr ''SQLite format 3''" by (simp add: sample_fs_def)
  show ?thesis
    using extract_empty_table [of empty_table_ready "sample_engine\<lparr>exec := (\<lambda>db sql. Inr [])\<rparr>"
        sample_fs "''backup.db''" "''SQLite format 3''" "''SQLite format 3''" "[]"]
      extract_empty_table [of "\<lparr>dbModule = Some (sample_engine\<lparr>exec := (\<lambda>db sql. Inr [\<lparr>columns = sample_columns, values_of = []\<rparr>])\<rparr>),
           initSqlJs_calls = 1\<rparr>"
        "sample_engine\<lparr>exec := (\<lambda>db sql. Inr [\<lparr>columns = sample_columns, values_of = []\<rparr>])\<rparr>"
        sample_fs "''backup.db''" "''SQLite format 3''" "''SQLite format 3''"
        "[\<lparr>columns = sample_columns, values_of = []\<rparr>]"]
    by (simp add: fs empty_table_ready_def sample_engine_def)
qed

text \<open>
  C7. The log of a call is written by the constructor, \<open>exec\<close> and \<open>close\<close> as they are
  called. On every path it is either empty (no instance was constructed) or exactly:
  constructed, queried, closed. So an instance is closed as often as it was constructed,
  at most once, and last. Whenever the constructor succeeds the log is the full one,
  whatever the query and \<open>close\<close> then do; when it throws, or the file cannot be read,
  or the library is not initialized, nothing is constructed and nothing closed.
\<close>

theorem database_closed_once:
  "(snd (readDbFileAndQuery readFileSync st path) = [] \<or>
    (\<exists>db. snd (readDbFileAndQuery readFileSync st path) =
            [Constructed db, Executed db log_query, Closed db])) \<and>
   count_list (snd (readDbFileAndQuery readFileSync st path)) (Closed d) =
     count_list (snd (readDbFileAndQuery readFileSync st path)) (Constructed d) \<and>
   count_list (snd (readDbFileAndQuery readFileSync st path)) (Closed d) \<le> 1 \<and>
   (dbModule st = Some m \<and> readFileSync path = Inr buf \<and> Database m buf = Inr d \<longrightarrow>
      snd (readDbFileAndQuery readFileSync st path) =
        [Constructed d, Executed d log_query, Closed d]) \<and>
   (dbModule st = Some m \<and> readFileSync path = Inr buf \<and> Database m buf = Inl e \<longrightarrow>
      snd (readDbFileAndQuery readFileSync st path) = []) \<and>
   (dbModule st = None \<or> readFileSync path = Inl e \<longrightarrow>
      snd (readDbFileAndQuery readFileSync st path) = [])"
  by (auto simp: readDbFileAndQuery_def new_Database_def db_exec_def db_close_def
      split: option.split sum.split)

theorem database_closed_once_witness:
  "readDbFileAndQuery sample_fs sample_ready ''backup.db'' =
     (Inr (map (zip sample_columns) sample_rows),
      [Constructed ''SQLite format 3'', Executed ''SQLite format 3'' log_query,
       Closed ''SQLite format 3'']) \<and>
   readDbFileAndQuery sample_fs empty_table_ready ''backup.db'' =
     (Inr [],
      [Constructed ''SQLite format 3'', Executed ''SQLite format 3'' log_query,
       Closed ''SQLite format 3'']) \<and>
   readDbFileAndQuery sample_fs sample_ready ''notes.db'' =
     (Inl (Error ''Failed to process database file: file is not a database''),
      [Constructed ''plain text'', Executed ''plain text'' log_query, Closed ''plain text'']) \<and>
   readDbFileAndQuery sample_fs stuck_ready ''backup.db'' =
     (Inl (Error ''database is locked''),
      [Constructed ''SQLite format 3'', Executed ''SQLite format 3'' log_query,
       Closed ''SQLite format 3'']) \<and>
   readDbFileAndQuery sample_fs no_memory_ready ''backup.db'' =
     (Inl (Error ''Failed to process database file: out of memory''), []) \<and>
   readDbFileAndQuery sample_fs sample_ready ''missing.db'' =
     (Inl (Error ''Failed to process database file: ENOENT: no such file or directory''), [])"
proof -
  let ?stuck = "sample_engine\<lparr>close := (\<lambda>db. Some (Error ''database is locked''))\<rparr>"
  let ?no_memory = "sample_engine\<lparr>Database := (\<lambda>buffer. Inl (Error ''out of memory''))\<rparr>"
  let ?empty = "sample_engine\<lparr>exec := (\<lambda>db sql. Inr [])\<rparr>"
  have fs: "sample_fs ''backup.db'' = Inr ''SQLite format 3''"
    "sample_fs ''notes.db'' = Inr ''plain text''"
    "sample_fs ''missing.db'' = Inl (Error ''ENOENT: no such file or directory'')"
    by (simp_all add: sample_fs_def)
  have st: "dbModule sample_ready = Some sample_engine" "dbModule stuck_ready = Some ?stuck"
    "dbModule no_memory_ready = Some ?no_memory" "dbModule empty_table_ready = Some ?empty"
    by (simp_all add: sample_ready_def stuck_ready_def no_memory_ready_def
        empty_table_ready_def)
  have opens: "Database sample_engine buffer = Inr buffer" "Database ?stuck buffer = Inr buffer"
    "Database ?empty buffer = Inr buffer"
    "Database ?no_memory buffer = Inl (Error ''out of memory'')" for buffer
    by (simp_all add: sample_engine_def)
  have log1: "snd (readDbFileAndQuery sample_fs sample_ready ''backup.db'') =
      [Constructed ''SQLite format 3'', Executed ''SQLite format 3'' log_query,
       Closed ''SQLite format 3'']"
    using database_closed_once [of sample_fs sample_ready "''backup.db''"
        "''SQLite format 3''" sample_engine "''SQLite format 3''"] fs st opens
    by simp
  have log2: "snd (readDbFileAndQuery sample_fs empty_table_ready ''backup.db'') =
      [Constructed ''SQLite format 3'', Executed ''SQLite format 3'' log_query,
       Closed ''SQLite format 3'']"
    using database_closed_once [of sample_fs empty_table_ready "''backup.db''"
        "''SQLite format 3''" ?empty "''SQLite format 3''"] fs st opens
    by simp
  have log3: "snd (readDbFileAndQuery sample_fs sample_ready ''notes.db'') =
      [Constructed ''plain text'', Executed ''plain text'' log_query, Closed ''plain text'']"
    using database_closed_once [of sample_fs sample_ready "''notes.db''"
        "''plain text''" sample_engine "''plain text''"] fs st opens
    by simp
  have log4: "snd (readDbFileAndQuery sample_fs stuck_ready ''backup.db'') =
      [Constructed ''SQLite format 3'', Executed ''SQLite format 3'' log_query,
       Closed ''SQLite format 3'']"
    using database_closed_once [of sample_fs stuck_ready "''backup.db''"
        "''SQLite format 3''" ?stuck "''SQLite format 3''"] fs st opens
    by simp
  have log5: "snd (readDbFileAndQuery sample_fs no_memory_ready ''backup.db'') = []"
    using database_closed_once [of sample_fs no_memory_ready "''backup.db''"
        "''SQLite format 3''" ?no_memory "''SQLite format 3''" "Error ''out of memory''"]
      fs st opens
    by simp
  have log6: "snd (readDbFileAndQuery sample_fs sample_ready ''missing.db'') = []"
    using database_closed_once [of sample_fs sample_ready "''missing.db''"
        "''SQLite format 3''" sample_engine "''SQLite format 3''"
        "Error ''ENOENT: no such file or directory''"] fs
    by simp
  have rows: "\<forall>row \<in> set sample_rows. length row = length sample_columns"
    by (simp add: sample_rows_def sample_columns_def)
  have entries: "map (make_entry sample_columns) sample_rows = map (zip sample_columns) sample_rows"
    using rows sample_names by (simp add: make_entry_zip_row)
  have out1: "fst (readDbFileAndQuery sample_fs sample_ready ''backup.db'') =
                Inr (map (make_entry sample_columns) sample_rows)"
    by (simp add: readDbFileAndQuery_def new_Database_def db_exec_def db_close_def fs
        sample_ready_def sample_engine_def query_data_def sample_rows_def)
  have outs:
    "fst (readDbFileAndQuery sample_fs empty_table_ready ''backup.db'') = Inr []"
    "fst (readDbFileAndQuery sample_fs sample_ready ''notes.db'') =
       Inl (Error ''Failed to process database file: file is not a database'')"
    "fst (readDbFileAndQuery sample_fs stuck_ready ''backup.db'') =
       Inl (Error ''database is locked'')"
    "fst (readDbFileAndQuery sample_fs no_memory_ready ''backup.db'') =
       Inl (Error ''Failed to process database file: out of memory'')"
    "fst (readDbFileAndQuery sample_fs sample_ready ''missing.db'') =
       Inl (Error ''Failed to process database file: ENOENT: no such file or directory'')"
    by (simp_all add: readDbFileAndQuery_def new_Database_def db_exec_def db_close_def fs
        sample_ready_def empty_table_ready_def stuck_ready_def no_memory_ready_def
        sample_engine_def query_data_def process_error_def)
  show ?thesis
    using log1 log2 log3 log4 log5 log6 out1 outs entries by (simp add: prod_eq_iff)
qed

text \<open>
  C4, as the code has it. With the library initialized, a file that cannot be read, a
  content that does not open as a database and a query that fails all end in the same
  error: \<open>Failed to process database file:\<close> followed by the original message. The error
  carries no path; the handler puts the message and the chosen path into its failure
  reply.
\<close>

theorem failures_share_one_error:
  assumes ready: "dbModule st = Some m"
  shows "(readFileSync path = Inl e \<longrightarrow>
            fst (readDbFileAndQuery readFileSync st path) =
              Inl (Error (''Failed to process database file: '' @ message_of e))) \<and>
         (readFileSync path = Inr buf \<and> Database m buf = Inl e \<longrightarrow>
            fst (readDbFileAndQuery readFileSync st path) =
              Inl (Error (''Failed to process database file: '' @ message_of e))) \<and>
         (readFileSync path = Inr buf \<and> Database m buf = Inr db \<and>
          exec m db log_query = Inl e \<and> close m db = None \<longrightarrow>
            fst (readDbFileAndQuery readFileSync st path) =
              Inl (Error (''Failed to process database file: '' @ message_of e))) \<and>
         (fst (readDbFileAndQuery readFileSync st path) = Inl err \<longrightarrow>
            fst (load_database_log basename readFileSync st False (path # others)) =
              \<lparr>success = False, message = Some (message_of err), filePath = Some path,
               fileName = None, data = None\<rparr>)"
  using ready
  by (auto simp: readDbFileAndQuery_def new_Database_def db_exec_def db_close_def
      load_database_log_def process_error_def split: prod.splits sum.splits)

theorem failures_share_one_error_witness:
  "fst (readDbFileAndQuery sample_fs sample_ready ''missing.db'') =
     Inl (Error ''Failed to process database file: ENOENT: no such file or directory'') \<and>
   fst (readDbFileAndQuery sample_fs sample_ready ''notes.db'') =
     Inl (Error ''Failed to process database file: file is not a database'') \<and>
   fst (readDbFileAndQuery sample_fs no_table_ready ''backup.db'') =
     Inl (Error ''Failed to process database file: no such table: temp_logs'') \<and>
   fst (readDbFileAndQuery sample_fs no_memory_ready ''backup.db'') =
     Inl (Error ''Failed to process database file: out of memory'') \<and>
   fst (load_database_log (\<lambda>p. p) sample_fs sample_ready False [''missing.db'']) =
     \<lparr>success = False,
      message = Some ''Failed to process database file: ENOENT: no such file or directory'',
      filePath = Some ''missing.db'', fileName = None, data = None\<rparr>"
proof -
  let ?no_table = "sample_engine\<lparr>exec := (\<lambda>db sql. Inl (Error ''no such table: temp_logs''))\<rparr>"
  let ?no_memory = "sample_engine\<lparr>Database := (\<lambda>buffer. Inl (Error ''out of memory''))\<rparr>"
  have ready: "dbModule sample_ready = Some sample_engine" by (simp add: sample_ready_def)
  have ready': "dbModule no_table_ready = Some ?no_table" by (simp add: no_table_ready_def)
  have ready'': "dbModule no_memory_ready = Some ?no_memory"
    by (simp add: no_memory_ready_def)
  have fs: "sample_fs ''missing.db'' = Inl (Error ''ENOENT: no such file or directory'')"
    "sample_fs ''notes.db'' = Inr ''plain text''"
    "sample_fs ''backup.db'' = Inr ''SQLite format 3''"
    by (simp_all add: sample_fs_def)
  have eng: "Database sample_engine ''plain text'' = Inr ''plain text''"
    "exec sample_engine ''plain text'' log_query = Inl (Error ''file is not a database'')"
    "close sample_engine ''plain text'' = None"
    "Database ?no_table ''SQLite format 3'' = Inr ''SQLite format 3''"
    "exec ?no_table ''SQLite format 3'' log_query = Inl (Error ''no such table: temp_logs'')"
    "close ?no_table ''SQLite format 3'' = None"
    "Database ?no_memory ''SQLite format 3'' = Inl (Error ''out of memory'')"
    by (simp_all add: sample_engine_def)
  have a: "fst (readDbFileAndQuery sample_fs sample_ready ''missing.db'') =
     Inl (Error ''Failed to process database file: ENOENT: no such file or directory'')"
    using failures_share_one_error [OF ready, of sample_fs "''missing.db''"
      "Error ''ENOENT: no such file or directory''" "[]" "[]"
      "Error ''Failed to process database file: ENOENT: no such file or directory''"
      "\<lambda>p. p" "[]"] fs
    by simp
  have b: "fst (readDbFileAndQuery sample_fs sample_ready ''notes.db'') =
     Inl (Error ''Failed to process database file: file is not a database'')"
    using failures_share_one_error [OF ready, of sample_fs "''notes.db''"
      "Error ''file is not a database''" "''plain text''" "''plain text''"
      "Error ''Failed to process database file: file is not a database''"
      "\<lambda>p. p" "[]"] fs eng
    by simp
  have c: "fst (readDbFileAndQuery sample_fs no_table_ready ''backup.db'') =
     Inl (Error ''Failed to process database file: no such table: temp_logs'')"
    using failures_share_one_error [OF ready', of sample_fs "''backup.db''"
      "Error ''no such table: temp_logs''" "''SQLite format 3''" "''SQLite format 3''"
      "Error ''Failed to process database file: no such table: temp_logs''"
      "\<lambda>p. p" "[]"] fs eng
    by simp
  have c': "fst (readDbFileAndQuery sample_fs no_memory_ready ''backup.db'') =
     Inl (Error ''Failed to process database file: out of memory'')"
    using failures_share_one_error [OF ready'', of sample_fs "''backup.db''"
      "Error ''out of memory''" "''SQLite format 3''" "[]"
      "Error ''Failed to process database file: out of memory''"
      "\<lambda>p. p" "[]"] fs eng
    by simp
  have d: "fst (load_database_log (\<lambda>p. p) sample_fs sample_ready False [''missing.db'']) =
     \<lparr>success = False,
      message = Some ''Failed to process database file: ENOENT: no such file or directory'',
      filePath = Some ''missing.db'', fileName = None, data = None\<rparr>"
    using failures_share_one_error [OF ready, of sample_fs "''missing.db''"
      "Error ''ENOENT: no such file or directory''" "[]" "[]"
      "Error ''Failed to process database file: ENOENT: no such file or directory''"
      "\<lambda>p. p" "[]"] a
    by simp
  show ?thesis using a b c c' d by simp
qed

text \<open>
  C4 as stated does not hold: a missing file fails with the very error that wraps a
  content that is not a database, not with an error of a kind of its own.
\<close>

theorem read_failure_same_kind:
  "fst (readDbFileAndQuery sample_fs sample_ready ''missing.db'') =
     Inl (Error ''Failed to process database file: ENOENT: no such file or directory'') \<and>
   fst (readDbFileAndQuery sample_fs sample_ready ''missing.db'') =
     Inl (process_error (Error ''ENOENT: no such file or directory'')) \<and>
   fst (readDbFileAndQuery sample_fs sample_ready ''notes.db'') =
     Inl (process_error (Error ''file is not a database''))"
  by (simp add: readDbFileAndQuery_def new_Database_def db_exec_def db_close_def
      sample_fs_def sample_ready_def sample_engine_def process_error_def)

section \<open>Properties of the loader\<close>

subsection \<open>One call\<close>

lemma init_set: "dbModule st \<noteq> None \<Longrightarrow> initializeDbModule env st = (Inr (), st)"
  by (simp add: initializeDbModule_def init_begin_def finish_def)

lemma init_without_binary:
  assumes "dbModule st = None" "\<not> existsSync env (WASM_PATH env)"
  shows "initializeDbModule env st =
           init_resume (initSqlJs env None) (st\<lparr>initSqlJs_calls := Suc (initSqlJs_calls st)\<rparr>)"
  using assms
  by (simp add: initializeDbModule_def init_begin_def call_initSqlJs_def finish_def)

lemma init_with_binary:
  assumes "dbModule st = None" "existsSync env (WASM_PATH env)"
    "wasm_readFileSync env (WASM_PATH env) = Inr wasmBinary"
  shows "initializeDbModule env st =
           init_resume (initSqlJs env (Some wasmBinary))
             (st\<lparr>initSqlJs_calls := Suc (initSqlJs_calls st)\<rparr>)"
  using assms
  by (simp add: initializeDbModule_def init_begin_def call_initSqlJs_def finish_def)

lemma init_unreadable:
  assumes "dbModule st = None" "existsSync env (WASM_PATH env)"
    "wasm_readFileSync env (WASM_PATH env) = Inl e"
  shows "initializeDbModule env st = (Inl e, st)"
  using assms by (simp add: initializeDbModule_def init_begin_def finish_def)

lemma init_success_sets:
  "fst (initializeDbModule env st) = Inr () \<Longrightarrow> dbModule (snd (initializeDbModule env st)) \<noteq> None"
  by (auto simp: initializeDbModule_def init_begin_def call_initSqlJs_def finish_def
      init_resume_def split: sum.splits if_splits)

lemma init_failure_keeps:
  "dbModule st = None \<Longrightarrow> fst (initializeDbModule env st) = Inl e \<Longrightarrow>
   dbModule (snd (initializeDbModule env st)) = None"
  by (auto simp: initializeDbModule_def init_begin_def call_initSqlJs_def finish_def
      init_resume_def split: sum.splits if_splits)

text \<open>
  C8. A call that finds the module set does nothing and succeeds. A call on an unset
  module whose initialization is fulfilled, with or without the binary, invokes
  \<open>initSqlJs\<close> once, sets the module to what the library gave and succeeds. A call that
  succeeds leaves the module set, so every later call, whatever its surroundings,
  changes nothing (no further invocation of \<open>initSqlJs\<close>) and succeeds. When the module
  is unset and the initialization throws (the library rejects, or reading the binary
  fails), the call fails with that very error and the module stays unset; a later call
  whose initialization is fulfilled then invokes \<open>initSqlJs\<close> once more and sets the
  module.
\<close>

theorem initialize_once:
  "(dbModule st \<noteq> None \<longrightarrow> initializeDbModule env st = (Inr (), st)) \<and>
   (dbModule st = None \<and> \<not> existsSync env (WASM_PATH env) \<and> initSqlJs env None = Inr m \<longrightarrow>
      initializeDbModule env st =
        (Inr (), st\<lparr>initSqlJs_calls := Suc (initSqlJs_calls st), dbModule := Some m\<rparr>)) \<and>
   (dbModule st = None \<and> existsSync env (WASM_PATH env) \<and>
    wasm_readFileSync env (WASM_PATH env) = Inr wasmBinary \<and>
    initSqlJs env (Some wasmBinary) = Inr m \<longrightarrow>
      initializeDbModule env st =
        (Inr (), st\<lparr>initSqlJs_calls := Suc (initSqlJs_calls st), dbModule := Some m\<rparr>)) \<and>
   (fst (initializeDbModule env st) = Inr () \<longrightarrow>
      dbModule (snd (initializeDbModule env st)) \<noteq> None \<and>
      initializeDbModule env' (snd (initializeDbModule env st)) =
        (Inr (), snd (initializeDbModule env st))) \<and>
   (dbModule st = None \<and> \<not> existsSync env (WASM_PATH env) \<and> initSqlJs env None = Inl e \<longrightarrow>
      initializeDbModule env st = (Inl e, st\<lparr>initSqlJs_calls := Suc (initSqlJs_calls st)\<rparr>)) \<and>
   (dbModule st = None \<and> existsSync env (WASM_PATH env) \<and>
    wasm_readFileSync env (WASM_PATH env) = Inr wasmBinary \<and>
    initSqlJs env (Some wasmBinary) = Inl e \<longrightarrow>
      initializeDbModule env st = (Inl e, st\<lparr>initSqlJs_calls := Suc (initSqlJs_calls st)\<rparr>)) \<and>
   (dbModule st = None \<and> existsSync env (WASM_PATH env) \<and>
    wasm_readFileSync env (WASM_PATH env) = Inl e \<longrightarrow>
      initializeDbModule env st = (Inl e, st)) \<and>
   (dbModule st = None \<and> fst (initializeDbModule env st) = Inl e \<longrightarrow>
      dbModule (snd (initializeDbModule env st)) = None \<and>
      (\<not> existsSync env' (WASM_PATH env') \<and> initSqlJs env' None = Inr m \<longrightarrow>
         initializeDbModule env' (snd (initializeDbModule env st)) =
           (Inr (), snd (initializeDbModule env st)
              \<lparr>initSqlJs_calls := Suc (initSqlJs_calls (snd (initializeDbModule env st))),
               dbModule := Some m\<rparr>)) \<and>
      (existsSync env' (WASM_PATH env') \<and>
       wasm_readFileSync env' (WASM_PATH env') = Inr wasmBinary \<and>
       initSqlJs env' (Some wasmBinary) = Inr m \<longrightarrow>
         initializeDbModule env' (snd (initializeDbModule env st)) =
           (Inr (), snd (initializeDbModule env st)
              \<lparr>initSqlJs_calls := Suc (initSqlJs_calls (snd (initializeDbModule env st))),
               dbModule := Some m\<rparr>)))"
proof (intro conjI impI)
  show "initializeDbModule env st = (Inr (), st)" if "dbModule st \<noteq> None"
    using that by (rule init_set)
  show "initializeDbModule env st =
        (Inr (), st\<lparr>initSqlJs_calls := Suc (initSqlJs_calls st), dbModule := Some m\<rparr>)"
    if "dbModule st = None \<and> \<not> existsSync env (WASM_PATH env) \<and> initSqlJs env None = Inr m"
    using that by (simp add: init_without_binary init_resume_def)
  show "initializeDbModule env st =
        (Inr (), st\<lparr>initSqlJs_calls := Suc (initSqlJs_calls st), dbModule := Some m\<rparr>)"
    if "dbModule st = None \<and> existsSync env (WASM_PATH env) \<and>
        wasm_readFileSync env (WASM_PATH env) = Inr wasmBinary \<and>
        initSqlJs env (Some wasmBinary) = Inr m"
    using that by (simp add: init_with_binary init_resume_def)
  show "dbModule (snd (initializeDbModule env st)) \<noteq> None"
    if "fst (initializeDbModule env st) = Inr ()"
    using that by (rule init_success_sets)
  show "initializeDbModule env' (snd (initializeDbModule env st)) =
        (Inr (), snd (initializeDbModule env st))"
    if "fst (initializeDbModule env st) = Inr ()"
    using that by (intro init_set init_success_sets)
  show "initializeDbModule env st = (Inl e, st\<lparr>initSqlJs_calls := Suc (initSqlJs_calls st)\<rparr>)"
    if "dbModule st = None \<and> \<not> existsSync env (WASM_PATH env) \<and> initSqlJs env None = Inl e"
    using that by (simp add: init_without_binary init_resume_def)
  show "initializeDbModule env st = (Inl e, st\<lparr>initSqlJs_calls := Suc (initSqlJs_calls st)\<rparr>)"
    if "dbModule st = None \<and> existsSync env (WASM_PATH env) \<and>
        wasm_readFileSync env (WASM_PATH env) = Inr wasmBinary \<and>
        initSqlJs env (Some wasmBinary) = Inl e"
    using that by (simp add: init_with_binary init_resume_def)
  show "initializeDbModule env st = (Inl e, st)"
    if "dbModule st = None \<and> existsSync env (WASM_PATH env) \<and>
        wasm_readFileSync env (WASM_PATH env) = Inl e"
    using that by (simp add: init_unreadable)
next
  assume failed: "dbModule st = None \<and> fst (initializeDbModule env st) = Inl e"
  let ?st' = "snd (initializeDbModule env st)"
  show unset: "dbModule ?st' = None"
    using failed by (simp add: init_failure_keeps)
  show "initializeDbModule env' ?st' =
          (Inr (), ?st'\<lparr>initSqlJs_calls := Suc (initSqlJs_calls ?st'), dbModule := Some m\<rparr>)"
    if "\<not> existsSync env' (WASM_PATH env') \<and> initSqlJs env' None = Inr m"
    using that unset by (simp add: init_without_binary init_resume_def)
  show "initializeDbModule env' ?st' =
          (Inr (), ?st'\<lparr>initSqlJs_calls := Suc (initSqlJs_calls ?st'), dbModule := Some m\<rparr>)"
    if "existsSync env' (WASM_PATH env') \<and>
        wasm_readFileSync env' (WASM_PATH env') = Inr wasmBinary \<and>
        initSqlJs env' (Some wasmBinary) = Inr m"
    using that unset by (simp add: init_with_binary init_resume_def)
qed

theorem initialize_once_witness:
  "initializeDbModule failing_env sample_ready = (Inr (), sample_ready) \<and>
   initializeDbModule sample_env fresh =
     (Inr (), \<lparr>dbModule = Some sample_engine, initSqlJs_calls = 1\<rparr>) \<and>
   initializeDbModule accepting_env fresh =
     (Inr (), \<lparr>dbModule = Some sample_engine, initSqlJs_calls = 1\<rparr>) \<and>
   initializeDbModule failing_env (snd (initializeDbModule sample_env fresh)) =
     (Inr (), \<lparr>dbModule = Some sample_engine, initSqlJs_calls = 1\<rparr>) \<and>
   initializeDbModule failing_env fresh =
     (Inl (Error ''wasm streaming compile failed''), \<lparr>dbModule = None, initSqlJs_calls = 1\<rparr>) \<and>
   initializeDbModule bundled_env fresh =
     (Inl (Error ''invalid wasm binary''), \<lparr>dbModule = None, initSqlJs_calls = 1\<rparr>) \<and>
   initializeDbModule unreadable_env fresh =
     (Inl (Error ''EACCES: permission denied''), \<lparr>dbModule = None, initSqlJs_calls = 0\<rparr>) \<and>
   initializeDbModule sample_env (snd (initializeDbModule failing_env fresh)) =
     (Inr (), \<lparr>dbModule = Some sample_engine, initSqlJs_calls = 2\<rparr>) \<and>
   initializeDbModule accepting_env (snd (initializeDbModule failing_env fresh)) =
     (Inr (), \<lparr>dbModule = Some sample_engine, initSqlJs_calls = 2\<rparr>)"
proof -
  let ?rejected = "Error ''wasm streaming compile failed''"
  let ?path = "''/app/node_modules/sql.js/dist/sql-wasm.wasm''"
  have set: "dbModule sample_ready \<noteq> None" by (simp add: sample_ready_def)
  have unset: "dbModule fresh = None" by (simp add: fresh_def)
  have path: "WASM_PATH bundled_env = ?path" "WASM_PATH unreadable_env = ?path"
    "WASM_PATH accepting_env = ?path"
    by (simp_all add: WASM_PATH_def accepting_env_def unreadable_env_def bundled_env_def
        sample_env_def)
  have absent: "\<not> existsSync sample_env (WASM_PATH sample_env)"
    "\<not> existsSync failing_env (WASM_PATH failing_env)"
    by (simp_all add: failing_env_def sample_env_def)
  have present: "existsSync bundled_env (WASM_PATH bundled_env)"
    "existsSync unreadable_env (WASM_PATH unreadable_env)"
    "existsSync accepting_env (WASM_PATH accepting_env)"
    by (simp_all add: path) (simp_all add: accepting_env_def unreadable_env_def bundled_env_def)
  have binary: "wasm_readFileSync bundled_env (WASM_PATH bundled_env) = Inr ''asm''"
    "wasm_readFileSync accepting_env (WASM_PATH accepting_env) = Inr ''asm''"
    "wasm_readFileSync unreadable_env (WASM_PATH unreadable_env) =
       Inl (Error ''EACCES: permission denied'')"
    by (simp_all add: accepting_env_def unreadable_env_def bundled_env_def)
  have settles: "initSqlJs sample_env None = Inr sample_engine"
    "initSqlJs failing_env None = Inl ?rejected"
    "initSqlJs bundled_env (Some ''asm'') = Inl (Error ''invalid wasm binary'')"
    "initSqlJs accepting_env (Some ''asm'') = Inr sample_engine"
    by (simp_all add: accepting_env_def bundled_env_def failing_env_def sample_env_def)
  have already: "initializeDbModule failing_env sample_ready = (Inr (), sample_ready)"
    using initialize_once [where st = sample_ready and env = failing_env and env' = sample_env
        and m = sample_engine and e = ?rejected and wasmBinary = "''asm''"] set
    by simp
  have first: "initializeDbModule sample_env fresh =
                 (Inr (), \<lparr>dbModule = Some sample_engine, initSqlJs_calls = 1\<rparr>)"
    using initialize_once [where st = fresh and env = sample_env and env' = failing_env
        and m = sample_engine and e = ?rejected and wasmBinary = "''asm''"]
      unset absent settles
    by (simp add: fresh_def)
  have with_binary: "initializeDbModule accepting_env fresh =
                 (Inr (), \<lparr>dbModule = Some sample_engine, initSqlJs_calls = 1\<rparr>)"
    using initialize_once [where st = fresh and env = accepting_env and env' = failing_env
        and m = sample_engine and e = ?rejected and wasmBinary = "''asm''"]
      unset present binary settles
    by (simp add: fresh_def)
  have later: "initializeDbModule failing_env (snd (initializeDbModule sample_env fresh)) =
                 (Inr (), \<lparr>dbModule = Some sample_engine, initSqlJs_calls = 1\<rparr>)"
    using initialize_once [where st = fresh and env = sample_env and env' = failing_env
        and m = sample_engine and e = ?rejected and wasmBinary = "''asm''"] first
    by simp
  have rejected: "initializeDbModule failing_env fresh =
                    (Inl ?rejected, \<lparr>dbModule = None, initSqlJs_calls = 1\<rparr>)"
    using initialize_once [where st = fresh and env = failing_env and env' = sample_env
        and m = sample_engine and e = ?rejected and wasmBinary = "''asm''"]
      unset absent settles
    by (simp add: fresh_def)
  have invalid: "initializeDbModule bundled_env fresh =
                   (Inl (Error ''invalid wasm binary''), \<lparr>dbModule = None, initSqlJs_calls = 1\<rparr>)"
    using initialize_once [where st = fresh and env = bundled_env and env' = sample_env
        and m = sample_engine and e = "Error ''invalid wasm binary''" and wasmBinary = "''asm''"]
      unset present binary settles
    by (simp add: fresh_def)
  have denied: "initializeDbModule unreadable_env fresh =
                  (Inl (Error ''EACCES: permission denied''),
                   \<lparr>dbModule = None, initSqlJs_calls = 0\<rparr>)"
    using initialize_once [where st = fresh and env = unreadable_env and env' = sample_env
        and m = sample_engine and e = "Error ''EACCES: permission denied''"
        and wasmBinary = "''asm''"]
      unset present binary
    by (simp add: fresh_def)
  have retry: "initializeDbModule sample_env (snd (initializeDbModule failing_env fresh)) =
                 (Inr (), \<lparr>dbModule = Some sample_engine, initSqlJs_calls = 2\<rparr>)"
    using initialize_once [where st = fresh and env = failing_env and env' = sample_env
        and m = sample_engine and e = ?rejected and wasmBinary = "''asm''"]
      unset rejected absent settles
    by (auto simp: fresh_def numeral_2_eq_2)
  have retry_binary:
    "initializeDbModule accepting_env (snd (initializeDbModule failing_env fresh)) =
       (Inr (), \<lparr>dbModule = Some sample_engine, initSqlJs_calls = 2\<rparr>)"
    using initialize_once [where st = fresh and env = failing_env and env' = accepting_env
        and m = sample_engine and e = ?rejected and wasmBinary = "''asm''"]
      unset rejected present binary settles
    by (auto simp: fresh_def numeral_2_eq_2)
  show ?thesis
    using already first with_binary later rejected invalid denied retry retry_binary by simp
qed

subsection \<open>Calls that overlap\<close>

lemma init_begin_unset:
  assumes "dbModule st = None"
  shows "init_begin env st =
           (fst (init_begin env st),
            st\<lparr>initSqlJs_calls := initSqlJs_calls st + (if invokes_initSqlJs env then 1 else 0)\<rparr>)"
    and "fst (init_begin env st) \<noteq> Finished (Inr ())"
  using assms
  by (auto simp: init_begin_def call_initSqlJs_def invokes_initSqlJs_def split: sum.splits)

lemma init_begin_same:
  assumes "dbModule st = None" "dbModule st' = None"
  shows "fst (init_begin env st') = fst (init_begin env st)"
  using assms by (auto simp: init_begin_def call_initSqlJs_def split: sum.splits)

lemma begin_all_unset:
  assumes "dbModule st0 = None" "dbModule st = None"
  shows "begin_all envs st =
           (map (\<lambda>env. fst (init_begin env st0)) envs,
            st\<lparr>initSqlJs_calls := initSqlJs_calls st + length (filter invokes_initSqlJs envs)\<rparr>)"
  using assms(2)
proof (induction envs arbitrary: st)
  case Nil
  then show ?case by simp
next
  case (Cons env envs)
  let ?st1 = "st\<lparr>initSqlJs_calls := initSqlJs_calls st + (if invokes_initSqlJs env then 1 else 0)\<rparr>"
  have b: "init_begin env st = (fst (init_begin env st0), ?st1)"
    using init_begin_unset(1) [OF Cons.prems, of env]
      init_begin_same [OF assms(1) Cons.prems, of env]
    by simp
  have "dbModule ?st1 = None" using Cons.prems by simp
  then have "begin_all envs ?st1 =
           (map (\<lambda>env. fst (init_begin env st0)) envs,
            ?st1\<lparr>initSqlJs_calls := initSqlJs_calls ?st1 + length (filter invokes_initSqlJs envs)\<rparr>)"
    by (rule Cons.IH)
  then show ?case using b by simp
qed

lemma finish_facts:
  "fst (finish p st) = fst (finish p st')"
  "initSqlJs_calls (snd (finish p st)) = initSqlJs_calls st"
  "dbModule st \<noteq> None \<Longrightarrow> dbModule (snd (finish p st)) \<noteq> None"
  "p \<noteq> Finished (Inr ()) \<Longrightarrow> dbModule st = None \<Longrightarrow>
     (dbModule (snd (finish p st)) = None) = (fst (finish p st) \<noteq> Inr ())"
  by (auto simp: finish_def init_resume_def split: pending.splits sum.splits)

lemma resume_all_outcomes:
  assumes "\<forall>p \<in> set ps. p \<noteq> Finished (Inr ())"
  shows "fst (resume_all ps st) = map (\<lambda>p. fst (finish p st0)) ps \<and>
         initSqlJs_calls (snd (resume_all ps st)) = initSqlJs_calls st \<and>
         (dbModule (snd (resume_all ps st)) = None) =
           (dbModule st = None \<and> (\<forall>p \<in> set ps. fst (finish p st0) \<noteq> Inr ()))"
  using assms
proof (induction ps arbitrary: st)
  case Nil
  then show ?case by simp
next
  case (Cons p ps)
  obtain r st1 where f: "finish p st = (r, st1)" by (cases "finish p st")
  have r: "r = fst (finish p st0)"
    using f finish_facts(1) [of p st st0] by simp
  have calls: "initSqlJs_calls st1 = initSqlJs_calls st"
    using f finish_facts(2) [of p st] by simp
  have p: "p \<noteq> Finished (Inr ())" using Cons.prems by simp
  have flag: "(dbModule st1 = None) = (dbModule st = None \<and> fst (finish p st0) \<noteq> Inr ())"
  proof (cases "dbModule st = None")
    case True
    then show ?thesis
      using f finish_facts(4) [OF p True] finish_facts(1) [of p st st0] by simp
  next
    case False
    then have "dbModule (snd (finish p st)) \<noteq> None" by (rule finish_facts(3))
    with False show ?thesis using f by auto
  qed
  have ih: "fst (resume_all ps st1) = map (\<lambda>p. fst (finish p st0)) ps \<and>
         initSqlJs_calls (snd (resume_all ps st1)) = initSqlJs_calls st1 \<and>
         (dbModule (snd (resume_all ps st1)) = None) =
           (dbModule st1 = None \<and> (\<forall>p \<in> set ps. fst (finish p st0) \<noteq> Inr ()))"
    using Cons.prems by (intro Cons.IH) simp
  show ?case using f r calls flag ih by (auto split: prod.splits)
qed

lemma success_invokes:
  assumes "dbModule st = None" "fst (initializeDbModule env st) = Inr ()"
  shows "invokes_initSqlJs env"
  using assms
  by (auto simp: initializeDbModule_def init_begin_def call_initSqlJs_def finish_def
      init_resume_def invokes_initSqlJs_def split: sum.splits if_splits)

text \<open>
  C9, as the code has it. The loader keeps no initialization in flight, only the module
  once it is there. When callers begin on an unset module before any of them has
  resumed, each runs its own initialization and gets the outcome it would get alone;
  \<open>initSqlJs\<close> is invoked once for each caller that gets as far (each one, unless
  reading the binary throws), not once in all; and the module is set afterwards exactly
  when one of these initializations succeeded. A call alone invokes \<open>initSqlJs\<close> once
  when it gets as far, and not otherwise. In particular, when each caller's
  initialization succeeds, every caller succeeds and \<open>initSqlJs\<close> has been invoked as
  many times as there are callers.
\<close>

theorem concurrent_callers_each_initialize:
  assumes "dbModule st = None"
  shows "fst (concurrent_init envs st) = map (\<lambda>env. fst (initializeDbModule env st)) envs \<and>
         initSqlJs_calls (snd (concurrent_init envs st)) =
           initSqlJs_calls st + length (filter invokes_initSqlJs envs) \<and>
         (dbModule (snd (concurrent_init envs st)) = None) =
           (\<forall>env \<in> set envs. fst (initializeDbModule env st) \<noteq> Inr ()) \<and>
         initSqlJs_calls (snd (initializeDbModule env st)) =
           initSqlJs_calls st + (if invokes_initSqlJs env then 1 else 0) \<and>
         ((\<forall>env \<in> set envs. fst (initializeDbModule env st) = Inr ()) \<longrightarrow>
            fst (concurrent_init envs st) = replicate (length envs) (Inr ()) \<and>
            initSqlJs_calls (snd (concurrent_init envs st)) = initSqlJs_calls st + length envs)"
proof -
  let ?ps = "map (\<lambda>env. fst (init_begin env st)) envs"
  let ?st1 = "st\<lparr>initSqlJs_calls := initSqlJs_calls st + length (filter invokes_initSqlJs envs)\<rparr>"
  have begun: "begin_all envs st = (?ps, ?st1)"
    using begin_all_unset [OF assms assms] .
  have pending: "\<forall>p \<in> set ?ps. p \<noteq> Finished (Inr ())"
    using init_begin_unset(2) [OF assms] by auto
  have alone: "fst (initializeDbModule env st) = fst (finish (fst (init_begin env st)) st)" for env
  proof -
    obtain p st' where b: "init_begin env st = (p, st')" by (cases "init_begin env st")
    show ?thesis
      using finish_facts(1) [of p st' st] by (simp add: initializeDbModule_def b)
  qed
  have calls_alone: "initSqlJs_calls (snd (initializeDbModule env st)) =
           initSqlJs_calls st + (if invokes_initSqlJs env then 1 else 0)"
  proof -
    obtain p st' where b: "init_begin env st = (p, st')" by (cases "init_begin env st")
    have "st' =
            st\<lparr>initSqlJs_calls := initSqlJs_calls st + (if invokes_initSqlJs env then 1 else 0)\<rparr>"
      using init_begin_unset(1) [OF assms, of env] b by simp
    then have "initSqlJs_calls (snd (finish p st')) =
                 initSqlJs_calls st + (if invokes_initSqlJs env then 1 else 0)"
      using finish_facts(2) [of p st'] by simp
    then show ?thesis by (simp add: initializeDbModule_def b)
  qed
  from resume_all_outcomes [OF pending, of ?st1 st]
  have resumed: "fst (resume_all ?ps ?st1) = map (\<lambda>p. fst (finish p st)) ?ps"
    "initSqlJs_calls (snd (resume_all ?ps ?st1)) = initSqlJs_calls ?st1"
    "(dbModule (snd (resume_all ?ps ?st1)) = None) =
       (dbModule ?st1 = None \<and> (\<forall>p \<in> set ?ps. fst (finish p st) \<noteq> Inr ()))"
    by blast+
  have run: "concurrent_init envs st = resume_all ?ps ?st1"
    using begun by (simp add: concurrent_init_def)
  have outcomes:
    "fst (concurrent_init envs st) = map (\<lambda>env. fst (initializeDbModule env st)) envs"
    using resumed(1) by (simp add: run alone comp_def)
  have invocations: "initSqlJs_calls (snd (concurrent_init envs st)) =
           initSqlJs_calls st + length (filter invokes_initSqlJs envs)"
    using resumed(2) by (simp add: run)
  show ?thesis
  proof (intro conjI impI)
    show "fst (concurrent_init envs st) = map (\<lambda>env. fst (initializeDbModule env st)) envs"
      by (rule outcomes)
    show "initSqlJs_calls (snd (concurrent_init envs st)) =
           initSqlJs_calls st + length (filter invokes_initSqlJs envs)"
      by (rule invocations)
    show "(dbModule (snd (concurrent_init envs st)) = None) =
           (\<forall>env \<in> set envs. fst (initializeDbModule env st) \<noteq> Inr ())"
      using resumed(3) assms by (simp add: run alone)
    show "initSqlJs_calls (snd (initializeDbModule env st)) =
           initSqlJs_calls st + (if invokes_initSqlJs env then 1 else 0)"
      by (rule calls_alone)
  next
    assume all: "\<forall>env \<in> set envs. fst (initializeDbModule env st) = Inr ()"
    show "fst (concurrent_init envs st) = replicate (length envs) (Inr ())"
      using all by (simp add: outcomes map_replicate_const [symmetric] cong: map_cong)
    have "filter invokes_initSqlJs envs = envs"
      using all success_invokes [OF assms] by (simp add: filter_id_conv)
    then show "initSqlJs_calls (snd (concurrent_init envs st)) = initSqlJs_calls st + length envs"
      using invocations by simp
  qed
qed

theorem concurrent_callers_each_initialize_witness:
  "concurrent_init [sample_env, failing_env, unreadable_env, accepting_env] fresh =
     ([Inr (), Inl (Error ''wasm streaming compile failed''),
       Inl (Error ''EACCES: permission denied''), Inr ()],
      \<lparr>dbModule = Some sample_engine, initSqlJs_calls = 3\<rparr>) \<and>
   fst (concurrent_init [sample_env, failing_env, unreadable_env, accepting_env] fresh) =
     map (\<lambda>env. fst (initializeDbModule env fresh))
       [sample_env, failing_env, unreadable_env, accepting_env] \<and>
   initSqlJs_calls
     (snd (concurrent_init [sample_env, failing_env, unreadable_env, accepting_env] fresh)) =
     initSqlJs_calls fresh +
     length (filter invokes_initSqlJs [sample_env, failing_env, unreadable_env, accepting_env]) \<and>
   initSqlJs_calls (snd (concurrent_init [unreadable_env, unreadable_env] fresh)) = 0 \<and>
   dbModule (snd (concurrent_init [failing_env, unreadable_env] fresh)) = None \<and>
   fst (concurrent_init [sample_env, accepting_env, sample_env] fresh) = [Inr (), Inr (), Inr ()] \<and>
   initSqlJs_calls (snd (concurrent_init [sample_env, accepting_env, sample_env] fresh)) = 3"
proof -
  let ?path = "''/app/node_modules/sql.js/dist/sql-wasm.wasm''"
  have unset: "dbModule fresh = None" by (simp add: fresh_def)
  have path: "WASM_PATH unreadable_env = ?path" "WASM_PATH accepting_env = ?path"
    by (simp_all add: WASM_PATH_def accepting_env_def unreadable_env_def bundled_env_def
        sample_env_def)
  have far: "invokes_initSqlJs sample_env" "invokes_initSqlJs failing_env"
    "\<not> invokes_initSqlJs unreadable_env" "invokes_initSqlJs accepting_env"
    by (simp_all add: invokes_initSqlJs_def path)
      (simp_all add: accepting_env_def unreadable_env_def bundled_env_def failing_env_def
        sample_env_def)
  have direct:
    "concurrent_init [sample_env, failing_env, unreadable_env, accepting_env] fresh =
     ([Inr (), Inl (Error ''wasm streaming compile failed''),
       Inl (Error ''EACCES: permission denied''), Inr ()],
      \<lparr>dbModule = Some sample_engine, initSqlJs_calls = 3\<rparr>)"
    by (simp add: concurrent_init_def init_begin_def call_initSqlJs_def finish_def
        init_resume_def WASM_PATH_def fresh_def accepting_env_def unreadable_env_def
        bundled_env_def failing_env_def sample_env_def)
  have alone: "fst (initializeDbModule failing_env fresh) \<noteq> Inr ()"
    "fst (initializeDbModule unreadable_env fresh) \<noteq> Inr ()"
    by (simp_all add: initializeDbModule_def init_begin_def call_initSqlJs_def finish_def
        init_resume_def WASM_PATH_def fresh_def unreadable_env_def bundled_env_def
        failing_env_def sample_env_def)
  have zero: "initSqlJs_calls fresh = 0" by (simp add: fresh_def)
  note four = concurrent_callers_each_initialize
        [OF unset, of "[sample_env, failing_env, unreadable_env, accepting_env]" sample_env]
  note unreadable = concurrent_callers_each_initialize
        [OF unset, of "[unreadable_env, unreadable_env]" sample_env]
  note failing = concurrent_callers_each_initialize
        [OF unset, of "[failing_env, unreadable_env]" sample_env]
  have outcomes:
    "fst (concurrent_init [sample_env, failing_env, unreadable_env, accepting_env] fresh) =
     map (\<lambda>env. fst (initializeDbModule env fresh))
       [sample_env, failing_env, unreadable_env, accepting_env]"
    using four by (rule conjunct1)
  have calls:
    "initSqlJs_calls
       (snd (concurrent_init [sample_env, failing_env, unreadable_env, accepting_env] fresh)) =
     initSqlJs_calls fresh +
     length (filter invokes_initSqlJs [sample_env, failing_env, unreadable_env, accepting_env])"
    using four by blast
  have none: "initSqlJs_calls (snd (concurrent_init [unreadable_env, unreadable_env] fresh)) = 0"
  proof -
    have "initSqlJs_calls (snd (concurrent_init [unreadable_env, unreadable_env] fresh)) =
            initSqlJs_calls fresh +
            length (filter invokes_initSqlJs [unreadable_env, unreadable_env])"
      using unreadable by blast
    then show ?thesis using far zero by simp
  qed
  have still_unset: "dbModule (snd (concurrent_init [failing_env, unreadable_env] fresh)) = None"
  proof -
    have "(dbModule (snd (concurrent_init [failing_env, unreadable_env] fresh)) = None) =
            (\<forall>env \<in> set [failing_env, unreadable_env].
               fst (initializeDbModule env fresh) \<noteq> Inr ())"
      using failing by blast
    then show ?thesis using alone by simp
  qed
  have succeed: "\<forall>env \<in> set [sample_env, accepting_env, sample_env].
                   fst (initializeDbModule env fresh) = Inr ()"
    by (simp add: initializeDbModule_def init_begin_def call_initSqlJs_def finish_def
        init_resume_def WASM_PATH_def fresh_def accepting_env_def bundled_env_def
        sample_env_def)
  have three: "fst (concurrent_init [sample_env, accepting_env, sample_env] fresh) =
                 replicate (length [sample_env, accepting_env, sample_env]) (Inr ()) \<and>
               initSqlJs_calls (snd (concurrent_init [sample_env, accepting_env, sample_env] fresh)) =
                 initSqlJs_calls fresh + length [sample_env, accepting_env, sample_env]"
    using concurrent_callers_each_initialize
        [OF unset, of "[sample_env, accepting_env, sample_env]" sample_env] succeed
    by blast
  have all_succeed:
    "fst (concurrent_init [sample_env, accepting_env, sample_env] fresh) = [Inr (), Inr (), Inr ()]"
    "initSqlJs_calls (snd (concurrent_init [sample_env, accepting_env, sample_env] fresh)) = 3"
    using three zero by (simp_all add: numeral_3_eq_3)
  show ?thesis
    using direct outcomes calls none still_unset all_succeed by (intro conjI)
qed

text \<open>
  C9 as stated does not hold: two overlapping callers on a fresh process invoke
  \<open>initSqlJs\<close> twice, not once.
\<close>

theorem two_callers_two_initializations:
  "concurrent_init [sample_env, sample_env] fresh =
     ([Inr (), Inr ()], \<lparr>dbModule = Some sample_engine, initSqlJs_calls = 2\<rparr>)"
  by (simp add: concurrent_init_def init_begin_def call_initSqlJs_def finish_def
      init_resume_def sample_env_def fresh_def)

end
